theory Spec2Isabelle
  imports Main
begin

section \<open>Clapshot API server: data model\<close>

text \<open>
  A shallow embedding of \<^verbatim>\<open>server/clapshot_server/api_server.py\<close>.
  Every Socket.IO handler of \<^verbatim>\<open>ClapshotApiServer\<close> becomes a function from the
  server state to an outcome and a new state. A Python exception is a value of
  \<open>py_error\<close>; a handler that lets an exception escape returns \<open>Inl\<close>.
\<close>

type_synonym bytes = "char list"  \<comment> \<open>an Isabelle \<open>char\<close> is one 8-bit byte\<close>
type_synonym path = "string list"  \<comment> \<open>a \<^verbatim>\<open>pathlib.Path\<close>, one string per component\<close>

datatype py_error =
    AssertionError string
  | KeyError string
  | AttributeError string
  | TypeError string
  | ValueError string
  | PlainException string
  | UnboundLocalError string
  | StorageError
  | EmitError
  | PermissionError
  | OSError

text \<open>\<^verbatim>\<open>str(e)\<close>, as the handlers put it into the \<^verbatim>\<open>details\<close> of an error message.\<close>

fun str_of_error :: "py_error \<Rightarrow> string" where
  "str_of_error (AssertionError s) = s"
| "str_of_error (KeyError s) = s"
| "str_of_error (AttributeError s) = s"
| "str_of_error (TypeError s) = s"
| "str_of_error (ValueError s) = s"
| "str_of_error (PlainException s) = s"
| "str_of_error (UnboundLocalError s) = s"
| "str_of_error StorageError = ''storage error''"
| "str_of_error EmitError = ''emit error''"
| "str_of_error PermissionError = ''permission denied''"
| "str_of_error OSError = ''os error''"

text \<open>
  The rows of the storage collaborator (\<^verbatim>\<open>from .database import Database, Video,
  Comment, Message\<close>). The fields are the attributes the handlers read and write;
  \<open>v_\<close>, \<open>c_\<close> and \<open>m_\<close> prefix the attribute names of \<^verbatim>\<open>Video\<close>,
  \<^verbatim>\<open>Comment\<close> and \<^verbatim>\<open>Message\<close>.
\<close>

record video =
  v_video_hash :: string
  v_added_by_userid :: string
  v_added_by_username :: string
  v_orig_filename :: string
  v_recompression_done :: bool
  v_fps :: string
  v_added_time :: string
  v_duration :: string

record comment =
  c_id :: "int option"
  c_video_hash :: string
  c_parent_id :: "int option"
  c_user_id :: string
  c_username :: string
  c_comment :: string
  c_timecode :: string
  c_drawing :: "string option"

record message =
  m_id :: "int option"
  m_event_name :: string
  m_user_id :: string
  m_ref_video_hash :: "string option"
  m_ref_comment_id :: "int option"
  m_message :: string
  m_details :: "string option"
  m_seen :: bool
  m_created :: "nat option"

text \<open>The dictionary built by \<^verbatim>\<open>dict_for_video\<close>.\<close>

record video_dict =
  vd_orig_filename :: string
  vd_video_hash :: string
  vd_video_url :: string
  vd_fps :: string
  vd_added_time :: string
  vd_duration :: string
  vd_username :: string
  vd_user_id :: string

text \<open>
  What \<^verbatim>\<open>sio.emit\<close> sends: the event name with its payload. A \<open>NewComment\<close> and a
  \<open>MessageEv\<close> carry the \<^verbatim>\<open>to_dict()\<close> of the row, that is its fields.
\<close>

datatype event =
    Welcome string string
  | UserVideos string string "video_dict list"
  | OpenVideo video_dict
  | NewComment comment
  | DelComment int
  | MessageEv message

text \<open>
  The dictionary a client sends with an event. A key the client left out is \<open>None\<close>;
  \<^verbatim>\<open>msg['k']\<close> on such a key raises \<^verbatim>\<open>KeyError\<close>, \<^verbatim>\<open>msg.get('k')\<close> gives \<^verbatim>\<open>None\<close>.
\<close>

record client_msg =
  msg_video_hash :: "string option"
  msg_parent_id :: "int option"
  msg_comment :: "string option"
  msg_timecode :: "string option"
  msg_drawing :: "string option"
  msg_comment_id :: "int option"

text \<open>One part of a multipart upload: \<^verbatim>\<open>field.name\<close>, \<^verbatim>\<open>field.filename\<close> and the
  chunks that \<^verbatim>\<open>field.read_chunk()\<close> yields.\<close>

record upload_field =
  f_name :: string
  f_filename :: "string option"
  f_chunks :: "bytes list"

text \<open>The answer of the HTTP handler: a \<^verbatim>\<open>web.Response\<close>, or \<^verbatim>\<open>None\<close> when the
  function body ends without a \<^verbatim>\<open>return\<close>.\<close>

datatype http_result = Response nat string | ReturnedNone

subsection \<open>The environment of one handler run\<close>

text \<open>
  Where the file system may refuse an upload: at \<^verbatim>\<open>mkdir\<close>, at \<^verbatim>\<open>open\<close>, or after
  a number of chunks were written.
\<close>

datatype fs_fault = NoFault | FailMkdir py_error | FailOpen py_error | FailWrite nat py_error

text \<open>
  The \<^verbatim>\<open>data\<close> of a parsed \<^verbatim>\<open>DataURI\<close>: \<^verbatim>\<open>bytes\<close> when the URI is base64-encoded,
  a \<^verbatim>\<open>str\<close> (the unquoted text) when it is not.
\<close>

datatype datauri_data = DataBytes bytes | DataStr string

text \<open>
  Everything outside the program that a handler run depends on: whether the storage
  collaborator and the socket layer raise during this run, the clock, the value drawn
  by \<^verbatim>\<open>uuid4()\<close>, and the library functions \<^verbatim>\<open>hashlib.sha256(..).hexdigest()\<close>,
  \<^verbatim>\<open>DataURI(..)\<close> (its mimetype and data, \<open>None\<close> when parsing raises),
  \<^verbatim>\<open>DataURI.make\<close>, \<^verbatim>\<open>urllib.parse.quote\<close> and \<^verbatim>\<open>str(round(Decimal(..), 3))\<close>.
  \<open>db_accepts c cs\<close> says whether the storage collaborator, holding the comments
  \<open>cs\<close>, takes the new row \<open>c\<close>: its integrity checks are not part of the sources
  and the specification leaves them open, so they are a parameter.
\<close>

record env =
  db_fails :: bool
  emit_fails :: bool
  fs_fault :: fs_fault
  now :: nat
  uuid4 :: string
  sha256_hexdigest :: "bytes \<Rightarrow> string"
  datauri_parse :: "string \<Rightarrow> (string \<times> datauri_data) option"
  datauri_make :: "bytes \<Rightarrow> string"
  url_quote :: "string \<Rightarrow> string"
  fps_str :: "string \<Rightarrow> string"
  db_accepts :: "comment \<Rightarrow> comment list \<Rightarrow> bool"

text \<open>The constructor arguments of \<^verbatim>\<open>ClapshotApiServer\<close> that the handlers use.\<close>

record config =
  url_base :: string
  videos_dir :: path
  upload_dir :: path
  has_ingest_callback :: bool

subsection \<open>The server state\<close>

text \<open>
  \<^item> \<open>db_videos\<close>, \<open>db_comments\<close>, \<open>db_messages\<close> and the two id counters: the
    storage collaborator \<^verbatim>\<open>self.db\<close>;
  \<^item> \<open>userid_to_sid\<close>: the dictionary \<^verbatim>\<open>self.userid_to_sid\<close>;
  \<^item> \<open>sessions\<close>: what \<^verbatim>\<open>sio.save_session\<close> stored per connection
    (\<^verbatim>\<open>user_id\<close>, \<^verbatim>\<open>username\<close>);
  \<^item> \<open>rooms\<close>: the pairs (connection, room) made by \<^verbatim>\<open>sio.enter_room\<close>;
  \<^item> \<open>emitted\<close>: every \<^verbatim>\<open>sio.emit(event, data, room=r)\<close>, oldest first, as (r, event);
  \<^item> \<open>files\<close>, \<open>dirs\<close>: the file system under the data directory;
  \<^item> \<open>ingested\<close>: the calls made to \<^verbatim>\<open>ingest_callback\<close>.
\<close>

record state =
  db_videos :: "video list"
  db_comments :: "comment list"
  db_messages :: "message list"
  db_next_comment_id :: int
  db_next_message_id :: int
  userid_to_sid :: "string \<rightharpoonup> string"
  sessions :: "string \<rightharpoonup> (string \<times> string)"
  rooms :: "(string \<times> string) set"
  emitted :: "(string \<times> event) list"
  files :: "path \<rightharpoonup> bytes"
  dirs :: "path set"
  ingested :: "(path \<times> string) list"

type_synonym 'a result = "(py_error + 'a) \<times> state"

section \<open>The storage collaborator\<close>

text \<open>
  \<^verbatim>\<open>database.py\<close> is not part of the sources at hand. Its operations are modelled
  from the specification, section 6: ``fetch/list/delete video, fetch/list/add/edit/delete
  comment, add/list/mark-seen notification, all assumed atomic at the single-record or
  cascade-delete level'', and section 7: a persistence error is raised to the caller.
  Every operation raises \<open>StorageError\<close> and changes nothing when \<open>db_fails\<close> holds.
\<close>

definition db_get_video :: "env \<Rightarrow> string \<Rightarrow> state \<Rightarrow> py_error + video option" where
  \<comment> \<open>Modelled from the spec: \<^verbatim>\<open>Database.get_video\<close> is missing; fetch video by hash.\<close>
  "db_get_video e h st =
     (if db_fails e then Inl StorageError
      else Inr (find (\<lambda>v. v_video_hash v = h) (db_videos st)))"

definition db_get_all_user_videos :: "env \<Rightarrow> string \<Rightarrow> state \<Rightarrow> py_error + video list" where
  \<comment> \<open>Modelled from the spec: \<^verbatim>\<open>Database.get_all_user_videos\<close> is missing; list the videos of an owner.\<close>
  "db_get_all_user_videos e uid st =
     (if db_fails e then Inl StorageError
      else Inr (filter (\<lambda>v. v_added_by_userid v = uid) (db_videos st)))"

definition db_del_video_and_comments :: "env \<Rightarrow> string \<Rightarrow> state \<Rightarrow> unit result" where
  \<comment> \<open>Modelled from the spec: \<^verbatim>\<open>Database.del_video_and_comments\<close> is missing; the video and
      all its comments are removed as one unit.\<close>
  "db_del_video_and_comments e h st =
     (if db_fails e then (Inl StorageError, st)
      else (Inr (), st\<lparr>db_videos := filter (\<lambda>v. v_video_hash v \<noteq> h) (db_videos st),
                       db_comments := filter (\<lambda>c. c_video_hash c \<noteq> h) (db_comments st)\<rparr>))"

definition db_get_video_comments :: "env \<Rightarrow> string \<Rightarrow> state \<Rightarrow> py_error + comment list" where
  \<comment> \<open>Modelled from the spec: \<^verbatim>\<open>Database.get_video_comments\<close> is missing; the comments of a
      video in storage order.\<close>
  "db_get_video_comments e h st =
     (if db_fails e then Inl StorageError
      else Inr (filter (\<lambda>c. c_video_hash c = h) (db_comments st)))"

definition db_get_comment :: "env \<Rightarrow> int \<Rightarrow> state \<Rightarrow> py_error + comment option" where
  \<comment> \<open>Modelled from the spec: \<^verbatim>\<open>Database.get_comment\<close> is missing; fetch comment by id,
      \<^verbatim>\<open>None\<close> when there is none.\<close>
  "db_get_comment e cid st =
     (if db_fails e then Inl StorageError
      else Inr (find (\<lambda>c. c_id c = Some cid) (db_comments st)))"

definition db_add_comment :: "env \<Rightarrow> comment \<Rightarrow> state \<Rightarrow> comment result" where
  \<comment> \<open>Modelled from the spec: \<^verbatim>\<open>Database.add_comment\<close> is missing; a row that the
      storage takes is appended under a fresh id, and the caller's object carries that id
      afterwards; a row that it does not take (section 3 states an invariant on
      \<^verbatim>\<open>parent_id\<close>, section 6 leaves the implementation open) raises and changes nothing.\<close>
  "db_add_comment e c st =
     (if db_fails e then (Inl StorageError, st)
      else if db_accepts e c (db_comments st) then
        (let c' = c\<lparr>c_id := Some (db_next_comment_id st)\<rparr>
         in (Inr c', st\<lparr>db_comments := db_comments st @ [c'],
                        db_next_comment_id := db_next_comment_id st + 1\<rparr>))
      else (Inl StorageError, st))"

definition db_edit_comment :: "env \<Rightarrow> int \<Rightarrow> string \<Rightarrow> state \<Rightarrow> unit result" where
  \<comment> \<open>Modelled from the spec: \<^verbatim>\<open>Database.edit_comment\<close> is missing; the text of the comment
      with this id is replaced.\<close>
  "db_edit_comment e cid txt st =
     (if db_fails e then (Inl StorageError, st)
      else (Inr (), st\<lparr>db_comments :=
              map (\<lambda>c. if c_id c = Some cid then c\<lparr>c_comment := txt\<rparr> else c) (db_comments st)\<rparr>))"

definition db_del_comment :: "env \<Rightarrow> int \<Rightarrow> state \<Rightarrow> unit result" where
  \<comment> \<open>Modelled from the spec: \<^verbatim>\<open>Database.del_comment\<close> is missing; the comment with this id
      is removed.\<close>
  "db_del_comment e cid st =
     (if db_fails e then (Inl StorageError, st)
      else (Inr (), st\<lparr>db_comments := filter (\<lambda>c. c_id c \<noteq> Some cid) (db_comments st)\<rparr>))"

definition db_add_message :: "env \<Rightarrow> message \<Rightarrow> state \<Rightarrow> message result" where
  \<comment> \<open>Modelled from the spec: \<^verbatim>\<open>Database.add_message\<close> is missing; the notification is
      written through storage, ``which assigns its id and timestamp'' (section 4.3).\<close>
  "db_add_message e m st =
     (if db_fails e then (Inl StorageError, st)
      else (let m' = m\<lparr>m_id := Some (db_next_message_id st), m_created := Some (now e)\<rparr>
            in (Inr m', st\<lparr>db_messages := db_messages st @ [m'],
                           db_next_message_id := db_next_message_id st + 1\<rparr>)))"

definition db_get_user_messages :: "env \<Rightarrow> string \<Rightarrow> state \<Rightarrow> py_error + message list" where
  \<comment> \<open>Modelled from the spec: \<^verbatim>\<open>Database.get_user_messages\<close> is missing; the stored
      notifications of a recipient.\<close>
  "db_get_user_messages e uid st =
     (if db_fails e then Inl StorageError
      else Inr (filter (\<lambda>m. m_user_id m = uid) (db_messages st)))"

definition db_set_message_seen :: "env \<Rightarrow> int option \<Rightarrow> bool \<Rightarrow> state \<Rightarrow> unit result" where
  \<comment> \<open>Modelled from the spec: \<^verbatim>\<open>Database.set_message_seen\<close> is missing; the seen flag of
      the notification with this id is set.\<close>
  "db_set_message_seen e mid b st =
     (if db_fails e then (Inl StorageError, st)
      else (Inr (), st\<lparr>db_messages :=
              map (\<lambda>m. if m_id m = mid then m\<lparr>m_seen := b\<rparr> else m) (db_messages st)\<rparr>))"

definition Message ::
  "string \<Rightarrow> string \<Rightarrow> string option \<Rightarrow> int option \<Rightarrow> string \<Rightarrow> string option \<Rightarrow> message" where
  \<comment> \<open>Modelled from the spec: the constructor \<^verbatim>\<open>Message(event_name=.., user_id=..,
      ref_video_hash=.., ref_comment_id=.., message=.., details=..)\<close> is missing; a new
      notification has no id and no timestamp yet and is unseen (section 3: ``mutated only
      to flip seen'').\<close>
  "Message ev uid rvh rcid txt det =
     \<lparr>m_id = None, m_event_name = ev, m_user_id = uid, m_ref_video_hash = rvh,
      m_ref_comment_id = rcid, m_message = txt, m_details = det, m_seen = False,
      m_created = None\<rparr>"

section \<open>The socket layer\<close>

definition sio_emit :: "env \<Rightarrow> string \<Rightarrow> event \<Rightarrow> state \<Rightarrow> unit result" where
  "sio_emit e room ev st =
     (if emit_fails e then (Inl EmitError, st)
      else (Inr (), st\<lparr>emitted := emitted st @ [(room, ev)]\<rparr>))"

definition sio_enter_room :: "string \<Rightarrow> string \<Rightarrow> state \<Rightarrow> state" where
  "sio_enter_room sid room st = st\<lparr>rooms := insert (sid, room) (rooms st)\<rparr>"

definition get_user :: "string \<Rightarrow> state \<Rightarrow> (string \<times> string) option" where
  \<comment> \<open>\<^verbatim>\<open>sio.get_session(sid)\<close>; \<open>None\<close> when the connection has no session, where the call raises.\<close>
  "get_user sid st = sessions st sid"

section \<open>The Mailbox push operation\<close>

definition push_message :: "env \<Rightarrow> message \<Rightarrow> bool \<Rightarrow> bool \<Rightarrow> state \<Rightarrow> unit result" where
  "push_message e msg dont_throw persist st =
     (let (r1, msg1, st1) =
        (if persist then
           (case db_add_message e msg st of
              (Inr m, st') \<Rightarrow> (Inr (), m, st')
            | (Inl x, st') \<Rightarrow> (if \<not> dont_throw then (Inl x, msg, st') else (Inr (), msg, st')))
         else (Inr (), msg, st))
      in case r1 of
           Inl x \<Rightarrow> (Inl x, st1)
         | Inr _ \<Rightarrow>
             (case userid_to_sid st1 (m_user_id msg1) of
                None \<Rightarrow> (Inr (), st1)
              | Some sid \<Rightarrow>
                  (case sio_emit e sid (MessageEv msg1) st1 of
                     (Inl x, st2) \<Rightarrow> (if \<not> dont_throw then (Inl x, st2) else (Inr (), st2))
                   | (Inr u, st2) \<Rightarrow> (Inr u, st2))))"

section \<open>Connecting and disconnecting\<close>

text \<open>\<^verbatim>\<open>x or d\<close> on an optional string: \<open>x\<close> unless it is \<^verbatim>\<open>None\<close> or empty.\<close>

definition truthy :: "string option \<Rightarrow> bool" where
  "truthy x = (case x of None \<Rightarrow> False | Some s \<Rightarrow> s \<noteq> [])"

definition py_or :: "string option \<Rightarrow> string option \<Rightarrow> string option" where
  "py_or a b = (if truthy a then a else b)"

definition or_str :: "string option \<Rightarrow> string \<Rightarrow> string" where
  "or_str a d = (case a of None \<Rightarrow> d | Some s \<Rightarrow> (if s \<noteq> [] then s else d))"

definition user_from_headers :: "(string \<rightharpoonup> string) \<Rightarrow> string \<times> string" where
  "user_from_headers headers =
     (let user_id = py_or (py_or (headers ''HTTP_X_REMOTE_USER_ID'') (headers ''X-Remote-User-Id''))
                          (headers ''X-REMOTE-USER-ID'');
          user_name = py_or (py_or (headers ''HTTP_X_REMOTE_USER_NAME'') (headers ''X-Remote-User-Name''))
                            (headers ''X-REMOTE-USER-NAME'')
      in (or_str user_id ''anonymous'', or_str user_name ''Anonymous''))"

definition connect :: "env \<Rightarrow> string \<Rightarrow> (string \<rightharpoonup> string) \<Rightarrow> state \<Rightarrow> unit result" where
  "connect e sid environ st =
     (let (user_id, username) = user_from_headers environ;
          st1 = st\<lparr>sessions := (sessions st)(sid \<mapsto> (user_id, username))\<rparr>;
          st2 = st1\<lparr>userid_to_sid := (userid_to_sid st1)(user_id \<mapsto> sid)\<rparr>
      in case sio_emit e sid (Welcome username user_id) st2 of
           (Inl x, st3) \<Rightarrow> (Inl x, st3)
         | (Inr _, st3) \<Rightarrow> (Inr (), sio_enter_room sid ''huoneusto'' st3))"

definition disconnect :: "string \<Rightarrow> state \<Rightarrow> unit result" where
  "disconnect sid st =
     (case get_user sid st of
        None \<Rightarrow> (Inl (KeyError ''Session not found''), st)
      | Some (user_id, username) \<Rightarrow>
          (Inr (), st\<lparr>userid_to_sid := (userid_to_sid st)(user_id := None)\<rparr>))"

text \<open>
  What the socket layer does around the two handlers: a new connection is a member of
  the room named by its own id before \<^verbatim>\<open>connect\<close> runs, and after \<^verbatim>\<open>disconnect\<close>
  has run the session and the room memberships of the connection are dropped.
\<close>

definition sio_connect :: "env \<Rightarrow> string \<Rightarrow> (string \<rightharpoonup> string) \<Rightarrow> state \<Rightarrow> unit result" where
  "sio_connect e sid environ st = connect e sid environ (sio_enter_room sid sid st)"

definition sio_disconnect :: "string \<Rightarrow> state \<Rightarrow> unit result" where
  "sio_disconnect sid st =
     (case disconnect sid st of
        (r, st1) \<Rightarrow> (r, st1\<lparr>sessions := (sessions st1)(sid := None),
                             rooms := Set.filter (\<lambda>(s, room). s \<noteq> sid) (rooms st1)\<rparr>))"

definition logout :: "string \<Rightarrow> state \<Rightarrow> unit result" where
  "logout sid st = sio_disconnect sid st"

section \<open>Sequencing with exceptions\<close>

definition then_do :: "'a result \<Rightarrow> ('a \<Rightarrow> state \<Rightarrow> 'b result) \<Rightarrow> 'b result" where
  \<comment> \<open>the next statement runs unless the previous one raised\<close>
  "then_do r f = (case r of (Inl x, st) \<Rightarrow> (Inl x, st) | (Inr v, st) \<Rightarrow> f v st)"

definition try_except :: "'a result \<Rightarrow> (py_error \<Rightarrow> state \<Rightarrow> 'a result) \<Rightarrow> 'a result" where
  \<comment> \<open>\<^verbatim>\<open>try: .. except Exception as e: ..\<close>\<close>
  "try_except r h = (case r of (Inl x, st) \<Rightarrow> h x st | (Inr v, st) \<Rightarrow> (Inr v, st))"

definition lift :: "py_error + 'a \<Rightarrow> state \<Rightarrow> 'a result" where
  "lift r st = (r, st)"

definition py_assert :: "bool \<Rightarrow> string \<Rightarrow> state \<Rightarrow> unit result" where
  "py_assert b txt st = (if b then (Inr (), st) else (Inl (AssertionError txt), st))"

definition getitem :: "'a option \<Rightarrow> string \<Rightarrow> state \<Rightarrow> 'a result" where
  \<comment> \<open>\<^verbatim>\<open>msg[k]\<close>\<close>
  "getitem v k st = (case v of None \<Rightarrow> (Inl (KeyError k), st) | Some x \<Rightarrow> (Inr x, st))"

section \<open>Strings and paths\<close>

fun py_split :: "char \<Rightarrow> string \<Rightarrow> string list" where
  "py_split sep [] = [[]]"
| "py_split sep (x # xs) =
     (if x = sep then [] # py_split sep xs
      else (case py_split sep xs of [] \<Rightarrow> [[x]] | w # ws \<Rightarrow> (x # w) # ws))"

definition rstrip_slash :: "string \<Rightarrow> string" where
  \<comment> \<open>\<^verbatim>\<open>s.rstrip('/')\<close>\<close>
  "rstrip_slash s = rev (dropWhile (\<lambda>c. c = CHR ''/'') (rev s))"

definition startswith :: "string \<Rightarrow> string \<Rightarrow> bool" where
  "startswith s p = (take (length p) s = p)"

definition path_name :: "string \<Rightarrow> string" where
  \<comment> \<open>\<^verbatim>\<open>Path(s).name\<close> of pathlib on POSIX: empty and \<^verbatim>\<open>.\<close> components are dropped, the
      name is the last component left, or the empty string.\<close>
  "path_name s =
     (let parts = filter (\<lambda>p. p \<noteq> [] \<and> p \<noteq> ''.'') (py_split CHR ''/'' s)
      in if parts = [] then [] else last parts)"

fun prefixes1 :: "path \<Rightarrow> path list" where
  \<comment> \<open>the directories \<^verbatim>\<open>mkdir(parents=True)\<close> makes sure of\<close>
  "prefixes1 [] = []"
| "prefixes1 (x # xs) = [x] # map ((#) x) (prefixes1 xs)"

definition path_exists :: "path \<Rightarrow> state \<Rightarrow> bool" where
  "path_exists p st = (case files st p of Some _ \<Rightarrow> True | None \<Rightarrow> p \<in> dirs st)"

definition fs_append :: "path \<Rightarrow> bytes \<Rightarrow> state \<Rightarrow> state" where
  \<comment> \<open>one \<^verbatim>\<open>f.write(c)\<close> on the open file \<open>p\<close>\<close>
  "fs_append p c st =
     st\<lparr>files := (files st)(p \<mapsto> (case files st p of None \<Rightarrow> c | Some old \<Rightarrow> old @ c))\<rparr>"

fun write_chunks :: "fs_fault \<Rightarrow> path \<Rightarrow> bytes list \<Rightarrow> nat \<Rightarrow> state \<Rightarrow> unit result" where
  \<comment> \<open>the chunks are written in order; \<open>k\<close> counts the writes done, and under
      \<open>FailWrite n x\<close> the write number \<open>n\<close> raises \<open>x\<close>, leaving what was written before\<close>
  "write_chunks ff p [] k st = (Inr (), st)"
| "write_chunks ff p (c # cs) k st =
     (case ff of
        FailWrite n x \<Rightarrow>
          (if n = k then (Inl x, st) else write_chunks ff p cs (Suc k) (fs_append p c st))
      | _ \<Rightarrow> write_chunks ff p cs (Suc k) (fs_append p c st))"

definition fs_mkdir_parents :: "env \<Rightarrow> path \<Rightarrow> state \<Rightarrow> unit result" where
  \<comment> \<open>\<^verbatim>\<open>d.mkdir(parents=True, exist_ok=True)\<close>\<close>
  "fs_mkdir_parents e d st =
     (case fs_fault e of
        FailMkdir x \<Rightarrow> (Inl x, st)
      | _ \<Rightarrow> (Inr (), st\<lparr>dirs := dirs st \<union> set (prefixes1 d)\<rparr>))"

definition fs_open_wb :: "env \<Rightarrow> path \<Rightarrow> state \<Rightarrow> unit result" where
  \<comment> \<open>\<^verbatim>\<open>aiofiles.open(p, 'wb')\<close>: the file is created or truncated; a directory (also a
      path that ends in \<^verbatim>\<open>..\<close>) cannot be opened for writing\<close>
  "fs_open_wb e p st =
     (case fs_fault e of
        FailOpen x \<Rightarrow> (Inl x, st)
      | _ \<Rightarrow> (if p \<in> dirs st \<or> p = [] \<or> last p = ''..'' then (Inl OSError, st)
              else (Inr (), st\<lparr>files := (files st)(p \<mapsto> [])\<rparr>)))"

section \<open>Events about videos and comments\<close>

definition dict_for_video :: "env \<Rightarrow> config \<Rightarrow> video \<Rightarrow> video_dict" where
  \<comment> \<open>\<open>v_added_time\<close> holds \<^verbatim>\<open>v.added_time.isoformat()\<close>; \<open>fps_str\<close> is
      \<^verbatim>\<open>str(round(Decimal(v.fps), 3))\<close>\<close>
  "dict_for_video e cfg v =
     (let video_url = rstrip_slash (url_base cfg) @ ''/video/'' @ v_video_hash v @ ''/'' @
            (if v_recompression_done v then ''video.mp4''
             else ''orig/'' @ url_quote e (v_orig_filename v))
      in \<lparr>vd_orig_filename = v_orig_filename v,
          vd_video_hash = v_video_hash v,
          vd_video_url = video_url,
          vd_fps = fps_str e (v_fps v),
          vd_added_time = v_added_time v,
          vd_duration = v_duration v,
          vd_username = v_added_by_username v,
          vd_user_id = v_added_by_userid v\<rparr>)"

definition new_comment_data :: "env \<Rightarrow> config \<Rightarrow> comment \<Rightarrow> state \<Rightarrow> py_error + comment" where
  \<comment> \<open>the dictionary \<^verbatim>\<open>data\<close> that \<^verbatim>\<open>_emit_new_comment(c, room)\<close> builds from
      \<^verbatim>\<open>c.to_dict()\<close>; a path that exists and is a directory cannot be opened for reading\<close>
  "new_comment_data e cfg c st =
     (let data = c in
      case c_drawing c of
        None \<Rightarrow> Inr data
      | Some d \<Rightarrow>
          (if d \<noteq> [] \<and> \<not> startswith d ''data:'' then
             (let path = videos_dir cfg @ [c_video_hash c, ''drawings'', d]
              in if path_exists path st then
                   (case files st path of
                      Some b \<Rightarrow> Inr (data\<lparr>c_drawing := Some (datauri_make e b)\<rparr>)
                    | None \<Rightarrow> Inl OSError)
                 else Inr (data\<lparr>c_comment := c_comment data @ '' [DRAWING NOT FOUND]''\<rparr>))
           else Inr data))"

definition emit_new_comment :: "env \<Rightarrow> config \<Rightarrow> comment \<Rightarrow> string \<Rightarrow> state \<Rightarrow> unit result" where
  \<comment> \<open>\<^verbatim>\<open>_emit_new_comment(c, room)\<close>\<close>
  "emit_new_comment e cfg c room st =
     then_do (lift (new_comment_data e cfg c st) st) (\<lambda>data st.
     sio_emit e room (NewComment data) st)"

fun emit_comments :: "env \<Rightarrow> config \<Rightarrow> comment list \<Rightarrow> string \<Rightarrow> state \<Rightarrow> unit result" where
  \<comment> \<open>the loop \<^verbatim>\<open>for c in ..: await _emit_new_comment(c, room=sid)\<close>\<close>
  "emit_comments e cfg [] room st = (Inr (), st)"
| "emit_comments e cfg (c # cs) room st =
     then_do (emit_new_comment e cfg c room st) (\<lambda>_ st. emit_comments e cfg cs room st)"

section \<open>The handlers\<close>

text \<open>
  Each handler is \<^verbatim>\<open>try: body except Exception as e: push an error message\<close>. The first
  statement of every body is \<^verbatim>\<open>user_id, username = await self.get_user(sid)\<close>; when it
  raises, the \<^verbatim>\<open>except\<close> block reads the unbound \<^verbatim>\<open>user_id\<close> and the handler lets
  \<^verbatim>\<open>UnboundLocalError\<close> escape.
\<close>

definition with_user ::
  "string \<Rightarrow> state \<Rightarrow> (string \<Rightarrow> string \<Rightarrow> state \<Rightarrow> unit result) \<Rightarrow> (string \<Rightarrow> py_error \<Rightarrow> state \<Rightarrow> unit result)
   \<Rightarrow> unit result" where
  "with_user sid st body handler =
     (case get_user sid st of
        None \<Rightarrow> (Inl (UnboundLocalError ''user_id''), st)
      | Some (user_id, username) \<Rightarrow> try_except (body user_id username st) (handler user_id))"

definition list_my_videos_body ::
  "env \<Rightarrow> config \<Rightarrow> string \<Rightarrow> string \<Rightarrow> string \<Rightarrow> state \<Rightarrow> unit result" where
  \<comment> \<open>the \<^verbatim>\<open>try\<close> block of \<^verbatim>\<open>list_my_videos\<close>, after \<^verbatim>\<open>get_user\<close>\<close>
  "list_my_videos_body e cfg sid user_id username st =
      then_do (lift (db_get_all_user_videos e user_id st) st) (\<lambda>videos st.
      sio_emit e sid (UserVideos username user_id (map (dict_for_video e cfg) videos)) st)"

definition list_my_videos :: "env \<Rightarrow> config \<Rightarrow> string \<Rightarrow> state \<Rightarrow> unit result" where
  "list_my_videos e cfg sid st =
     with_user sid st (list_my_videos_body e cfg sid)
       (\<lambda>user_id x st.
          push_message e (Message ''error'' user_id None None ''Failed to list your videos.''
                            (Some (str_of_error x))) True False st)"

definition open_video_body ::
  "env \<Rightarrow> config \<Rightarrow> string \<Rightarrow> client_msg \<Rightarrow> string \<Rightarrow> string \<Rightarrow> state \<Rightarrow> unit result" where
  \<comment> \<open>the \<^verbatim>\<open>try\<close> block of \<^verbatim>\<open>open_video\<close>, after \<^verbatim>\<open>get_user\<close>\<close>
  "open_video_body e cfg sid msg user_id username st =
      then_do (getitem (msg_video_hash msg) ''video_hash'' st) (\<lambda>video_hash st.
      then_do (lift (db_get_video e video_hash st) st) (\<lambda>v st.
      case v of
        None \<Rightarrow> push_message e (Message ''error'' user_id (Some video_hash) None
                                  ''No such video.'' None) False False st
      | Some v \<Rightarrow>
          then_do (sio_emit e sid (OpenVideo (dict_for_video e cfg v))
                     (sio_enter_room sid video_hash st)) (\<lambda>_ st.
          then_do (lift (db_get_video_comments e video_hash st) st) (\<lambda>cs st.
          emit_comments e cfg cs sid st))))"

definition open_video :: "env \<Rightarrow> config \<Rightarrow> string \<Rightarrow> client_msg \<Rightarrow> state \<Rightarrow> unit result" where
  "open_video e cfg sid msg st =
     with_user sid st (open_video_body e cfg sid msg)
       (\<lambda>user_id x st.
          push_message e (Message ''error'' user_id (msg_video_hash msg) None
                            ''Failed to lookup video.'' (Some (str_of_error x))) True False st)"

definition del_video_body ::
  "env \<Rightarrow> config \<Rightarrow> string \<Rightarrow> client_msg \<Rightarrow> string \<Rightarrow> string \<Rightarrow> state \<Rightarrow> unit result" where
  \<comment> \<open>the \<^verbatim>\<open>try\<close> block of \<^verbatim>\<open>del_video\<close>, after \<^verbatim>\<open>get_user\<close>\<close>
  "del_video_body e cfg sid msg user_id username st =
      then_do (getitem (msg_video_hash msg) ''video_hash'' st) (\<lambda>video_hash st.
      then_do (lift (db_get_video e video_hash st) st) (\<lambda>v st.
      case v of
        None \<Rightarrow> push_message e (Message ''error'' user_id (Some video_hash) None
                                  ''No such video. Cannot delete.'' None) False False st
      | Some v \<Rightarrow>
          then_do (py_assert (user_id = v_added_by_userid v \<or> user_id = ''admin'')
                     (''Video '' @ [CHR 0x27] @ video_hash @ [CHR 0x27] @ '' not owned by you. Cannot delete.'') st) (\<lambda>_ st.
          then_do (db_del_video_and_comments e video_hash st) (\<lambda>_ st.
          push_message e (Message ''ok'' user_id (Some video_hash) None ''Video deleted.''
               (Some (''Added by '' @ v_added_by_username v @ '' ('' @ v_added_by_userid v
                      @ '') on '' @ v_added_time v @ ''. Filename was '' @ [CHR 0x27]
                      @ v_orig_filename v @ [CHR 0x27])))
             False True st))))"

definition del_video :: "env \<Rightarrow> config \<Rightarrow> string \<Rightarrow> client_msg \<Rightarrow> state \<Rightarrow> unit result" where
  "del_video e cfg sid msg st =
     with_user sid st (del_video_body e cfg sid msg)
       (\<lambda>user_id x st.
          push_message e (Message ''error'' user_id (msg_video_hash msg) None
                            ''Failed to delete video.'' (Some (str_of_error x))) True True st)"


definition store_drawing :: "env \<Rightarrow> config \<Rightarrow> string \<Rightarrow> string option \<Rightarrow> state \<Rightarrow> string option result" where
  \<comment> \<open>the block \<^verbatim>\<open>if drawing := msg.get('drawing'): ..\<close> of \<^verbatim>\<open>add_comment\<close>; the result is
      the variable \<^verbatim>\<open>drawing\<close> after the block. \<^verbatim>\<open>hashlib.sha256\<close> takes bytes only: on
      the \<^verbatim>\<open>str\<close> data of a URI that is not base64-encoded it raises \<^verbatim>\<open>TypeError\<close>.\<close>
  "store_drawing e cfg video_hash d st =
     (if truthy d then
        (let drawing = or_str d [] in
         then_do (py_assert (startswith drawing ''data:'') ''Drawing is not a data URI.'' st) (\<lambda>_ st.
         case datauri_parse e drawing of
           None \<Rightarrow> (Inl (ValueError ''invalid data URI''), st)
         | Some (mimetype, img_data) \<Rightarrow>
             then_do (py_assert (mimetype = ''image/webp'') ''Invalid mimetype in drawing.'' st) (\<lambda>_ st.
             (let ext = py_split CHR ''/'' mimetype ! 1
              in case img_data of
                   DataStr _ \<Rightarrow> (Inl (TypeError ''Strings must be encoded before hashing''), st)
                 | DataBytes data \<Rightarrow>
                     (let sha256 = sha256_hexdigest e data;
                          fn = take 16 sha256 @ ''.'' @ ext;
                          drawing_path = videos_dir cfg @ [video_hash, ''drawings'', fn]
                      in then_do (fs_mkdir_parents e (butlast drawing_path) st) (\<lambda>_ st.
                         then_do (fs_open_wb e drawing_path st) (\<lambda>_ st.
                         then_do (write_chunks (fs_fault e) drawing_path [data] 0 st) (\<lambda>_ st.
                         (Inr (Some fn), st)))))))))
      else (Inr d, st))"

definition int_or_none :: "int option \<Rightarrow> int option" where
  \<comment> \<open>\<^verbatim>\<open>x or None\<close> on an optional integer\<close>
  "int_or_none x = (case x of None \<Rightarrow> None | Some n \<Rightarrow> (if n = 0 then None else Some n))"

definition str_or_none :: "string option \<Rightarrow> string option" where
  \<comment> \<open>\<^verbatim>\<open>x or None\<close> on an optional string\<close>
  "str_or_none x = (if truthy x then x else None)"

definition comment_from ::
  "string \<Rightarrow> string \<Rightarrow> string \<Rightarrow> client_msg \<Rightarrow> string option \<Rightarrow> comment" where
  \<comment> \<open>the row \<^verbatim>\<open>c = Comment(video_hash = .., parent_id = msg.get('parent_id') or None, ..)\<close>
      that \<^verbatim>\<open>add_comment\<close> builds; it has no id yet\<close>
  "comment_from video_hash user_id username msg drawing =
     \<lparr>c_id = None,
      c_video_hash = video_hash,
      c_parent_id = int_or_none (msg_parent_id msg),
      c_user_id = user_id,
      c_username = username,
      c_comment = or_str (msg_comment msg) [],
      c_timecode = or_str (msg_timecode msg) [],
      c_drawing = str_or_none drawing\<rparr>"

definition add_comment_body ::
  "env \<Rightarrow> config \<Rightarrow> string \<Rightarrow> client_msg \<Rightarrow> string \<Rightarrow> string \<Rightarrow> state \<Rightarrow> unit result" where
  \<comment> \<open>the \<^verbatim>\<open>try\<close> block of \<^verbatim>\<open>add_comment\<close>, after \<^verbatim>\<open>get_user\<close>\<close>
  "add_comment_body e cfg sid msg user_id username st =
      then_do (py_assert (user_id \<noteq> [] \<and> username \<noteq> []) [] st) (\<lambda>_ st.
      then_do (getitem (msg_video_hash msg) ''video_hash'' st) (\<lambda>video_hash st.
      then_do (lift (db_get_video e video_hash st) st) (\<lambda>vid st.
      case vid of
        None \<Rightarrow> push_message e (Message ''error'' user_id (Some video_hash) None
                                  ''No such video. Cannot comment.'' None) False False st
      | Some _ \<Rightarrow>
          then_do (store_drawing e cfg video_hash (msg_drawing msg) st) (\<lambda>drawing st.
          (let c = comment_from video_hash user_id username msg drawing
           in then_do (db_add_comment e c st) (\<lambda>c st.
              emit_new_comment e cfg c video_hash st))))))"

definition add_comment :: "env \<Rightarrow> config \<Rightarrow> string \<Rightarrow> client_msg \<Rightarrow> state \<Rightarrow> unit result" where
  "add_comment e cfg sid msg st =
     with_user sid st (add_comment_body e cfg sid msg)
       (\<lambda>user_id x st.
          push_message e (Message ''error'' user_id (msg_video_hash msg) None
                            ''Failed to add comment.'' (Some (str_of_error x))) True False st)"

definition edit_comment_body ::
  "env \<Rightarrow> config \<Rightarrow> string \<Rightarrow> client_msg \<Rightarrow> string \<Rightarrow> string \<Rightarrow> state \<Rightarrow> unit result" where
  \<comment> \<open>the \<^verbatim>\<open>try\<close> block of \<^verbatim>\<open>edit_comment\<close>, after \<^verbatim>\<open>get_user\<close>\<close>
  "edit_comment_body e cfg sid msg user_id username st =
      then_do (py_assert (user_id \<noteq> [] \<and> username \<noteq> []) [] st) (\<lambda>_ st.
      then_do (getitem (msg_comment_id msg) ''comment_id'' st) (\<lambda>comment_id st.
      then_do (getitem (msg_comment msg) ''comment'' st) (\<lambda>comment st.
      then_do (lift (db_get_comment e comment_id st) st) (\<lambda>old st.
      case old of
        None \<Rightarrow> (Inl (AttributeError ''video_hash''), st)
      | Some old \<Rightarrow>
          (let video_hash = c_video_hash old
           in then_do (py_assert (user_id = c_user_id old \<or> user_id = ''admin'')
                         ''You can only edit your own comments'' st) (\<lambda>_ st.
              then_do (db_edit_comment e comment_id comment st) (\<lambda>_ st.
              then_do (sio_emit e video_hash (DelComment comment_id) st) (\<lambda>_ st.
              then_do (lift (db_get_comment e comment_id st) st) (\<lambda>c st.
              case c of
                None \<Rightarrow> (Inl (AttributeError ''to_dict''), st)
              | Some c \<Rightarrow> emit_new_comment e cfg c video_hash st)))))))))"

definition edit_comment :: "env \<Rightarrow> config \<Rightarrow> string \<Rightarrow> client_msg \<Rightarrow> state \<Rightarrow> unit result" where
  "edit_comment e cfg sid msg st =
     with_user sid st (edit_comment_body e cfg sid msg)
       (\<lambda>user_id x st.
          push_message e (Message ''error'' user_id (msg_video_hash msg) (msg_comment_id msg)
                            ''Failed to edit comment.'' (Some (str_of_error x))) True False st)"

definition del_comment_body ::
  "env \<Rightarrow> config \<Rightarrow> string \<Rightarrow> client_msg \<Rightarrow> string \<Rightarrow> string \<Rightarrow> state \<Rightarrow> unit result" where
  \<comment> \<open>the \<^verbatim>\<open>try\<close> block of \<^verbatim>\<open>del_comment\<close>, after \<^verbatim>\<open>get_user\<close>\<close>
  "del_comment_body e cfg sid msg user_id username st =
      then_do (py_assert (user_id \<noteq> [] \<and> username \<noteq> []) [] st) (\<lambda>_ st.
      then_do (getitem (msg_comment_id msg) ''comment_id'' st) (\<lambda>comment_id st.
      then_do (lift (db_get_comment e comment_id st) st) (\<lambda>old st.
      case old of
        None \<Rightarrow> (Inl (AttributeError ''video_hash''), st)
      | Some old \<Rightarrow>
          (let video_hash = c_video_hash old
           in then_do (py_assert (user_id = c_user_id old \<or> user_id = ''admin'')
                         ''You can only delete your own comments'' st) (\<lambda>_ st.
              then_do (lift (db_get_video_comments e video_hash st) st) (\<lambda>all_comm st.
              if list_ex (\<lambda>c. c_parent_id c = Some comment_id) all_comm
              then (Inl (PlainException (''Can'' @ [CHR 0x27] @ ''t delete a comment that has replies'')), st)
              else then_do (db_del_comment e comment_id st) (\<lambda>_ st.
                   sio_emit e video_hash (DelComment comment_id) st)))))))"

definition del_comment :: "env \<Rightarrow> config \<Rightarrow> string \<Rightarrow> client_msg \<Rightarrow> state \<Rightarrow> unit result" where
  "del_comment e cfg sid msg st =
     with_user sid st (del_comment_body e cfg sid msg)
       (\<lambda>user_id x st.
          push_message e (Message ''error'' user_id None (msg_comment_id msg)
                            ''Failed to delete comment.'' (Some (str_of_error x))) True False st)"

fun list_messages_loop :: "env \<Rightarrow> string \<Rightarrow> message list \<Rightarrow> state \<Rightarrow> unit result" where
  \<comment> \<open>the loop \<^verbatim>\<open>for m in msgs: ..\<close> of \<^verbatim>\<open>list_my_messages\<close>\<close>
  "list_messages_loop e sid [] st = (Inr (), st)"
| "list_messages_loop e sid (m # ms) st =
     then_do (sio_emit e sid (MessageEv m) st) (\<lambda>_ st.
     if \<not> m_seen m then
       then_do (db_set_message_seen e (m_id m) True st) (\<lambda>_ st. list_messages_loop e sid ms st)
     else list_messages_loop e sid ms st)"

definition list_my_messages_body ::
  "env \<Rightarrow> string \<Rightarrow> string \<Rightarrow> string \<Rightarrow> state \<Rightarrow> unit result" where
  \<comment> \<open>the \<^verbatim>\<open>try\<close> block of \<^verbatim>\<open>list_my_messages\<close>, after \<^verbatim>\<open>get_user\<close>\<close>
  "list_my_messages_body e sid user_id username st =
      then_do (py_assert (user_id \<noteq> []) [] st) (\<lambda>_ st.
      then_do (lift (db_get_user_messages e user_id st) st) (\<lambda>msgs st.
      list_messages_loop e sid msgs st))"

definition list_my_messages :: "env \<Rightarrow> string \<Rightarrow> state \<Rightarrow> unit result" where
  "list_my_messages e sid st =
     with_user sid st (list_my_messages_body e sid)
       (\<lambda>user_id x st.
          sio_emit e sid (MessageEv (Message ''error'' user_id None None ''Failed to get messages.''
                                       (Some (str_of_error x)))) st)"

section \<open>The upload endpoint\<close>

definition save_upload :: "env \<Rightarrow> path \<Rightarrow> bytes list \<Rightarrow> state \<Rightarrow> unit result" where
  \<comment> \<open>the \<^verbatim>\<open>try\<close> block of \<^verbatim>\<open>post_upload_file\<close>: the reader passes on every chunk up to the
      first empty one, the writer appends them to the file in that order. When a write
      raises, the inner \<^verbatim>\<open>except\<close> block runs \<^verbatim>\<open>t.cancel()\<close> on the coroutine objects of
      \<^verbatim>\<open>tasks\<close>, which have no such method: \<^verbatim>\<open>AttributeError\<close> is what leaves the block.\<close>
  "save_upload e dst chunks st =
     then_do (fs_mkdir_parents e (butlast dst) st) (\<lambda>_ st.
     then_do (fs_open_wb e dst st) (\<lambda>_ st.
     case write_chunks (fs_fault e) dst (takeWhile (\<lambda>c. c \<noteq> []) chunks) 0 st of
       (Inl x, st1) \<Rightarrow>
         (Inl (AttributeError ([CHR 0x27] @ ''coroutine'' @ [CHR 0x27]
                 @ '' object has no attribute '' @ [CHR 0x27] @ ''cancel'' @ [CHR 0x27])), st1)
     | (Inr u, st1) \<Rightarrow> (Inr u, st1)))"

definition post_upload_file ::
  "env \<Rightarrow> config \<Rightarrow> (string \<rightharpoonup> string) \<Rightarrow> upload_field list \<Rightarrow> state \<Rightarrow> http_result result" where
  \<comment> \<open>Every path through the body of \<^verbatim>\<open>async for field in ..\<close> ends in \<^verbatim>\<open>return\<close> or raises:
      the \<^verbatim>\<open>return web.Response(status=400, ..)\<close> is the last statement of the loop body.
      So only the first field is ever looked at, and with no field at all the function
      runs off its end.\<close>
  "post_upload_file e cfg headers parts st =
     (let user_id = fst (user_from_headers headers) in
      if user_id = [] then (Inl (AssertionError ''No user_id for upload''), st)
      else
        (case parts of
           [] \<Rightarrow> (Inr ReturnedNone, st)
         | field # _ \<Rightarrow>
             (if f_name field \<noteq> ''fileupload''
              then (Inr (Response 400 ''No fileupload field in POST''), st)
              else
                (case f_filename field of
                   None \<Rightarrow> (Inl (TypeError ''expected str, bytes or os.PathLike object, not NoneType''), st)
                 | Some filename \<Rightarrow>
                     (if path_name filename \<noteq> filename
                      then (Inl (AssertionError ''Filename must not contain path''), st)
                      else
                        (let dst = upload_dir cfg @ [uuid4 e]
                                   @ (if path_name filename = [] then [] else [path_name filename])
                         in if path_exists dst st
                            then (Inl (AssertionError ''Upload dst already exists''), st)
                            else
                              (case save_upload e dst (f_chunks field) st of
                                 (Inl x, st1) \<Rightarrow>
                                   (if x = PermissionError
                                    then (Inr (Response 500 ''Permission error saving upload''), st1)
                                    else (Inl x, st1))
                               | (Inr _, st1) \<Rightarrow>
                                   (Inr (Response 200 ''Upload OK''),
                                    if has_ingest_callback cfg
                                    then st1\<lparr>ingested := ingested st1 @ [(dst, user_id)]\<rparr>
                                    else st1))))))))"

section \<open>Runs of the server\<close>

datatype request =
    Connect string "string \<rightharpoonup> string"
  | Disconnect string
  | Logout string
  | ListMyVideos string
  | OpenVideoReq string client_msg
  | DelVideo string client_msg
  | AddComment string client_msg
  | EditComment string client_msg
  | DelCommentReq string client_msg
  | ListMyMessages string
  | Upload "string \<rightharpoonup> string" "upload_field list"
  | Push message

text \<open>
  One request, served in an environment. \<open>Push\<close> is one turn of the loop of
  \<^verbatim>\<open>run_server\<close>, \<^verbatim>\<open>await server.push_message(msg, persist=True, dont_throw=True)\<close>.
\<close>

fun step :: "config \<Rightarrow> env \<Rightarrow> request \<Rightarrow> state \<Rightarrow> state" where
  "step cfg e (Connect sid environ) st = snd (sio_connect e sid environ st)"
| "step cfg e (Disconnect sid) st = snd (sio_disconnect sid st)"
| "step cfg e (Logout sid) st = snd (logout sid st)"
| "step cfg e (ListMyVideos sid) st = snd (list_my_videos e cfg sid st)"
| "step cfg e (OpenVideoReq sid msg) st = snd (open_video e cfg sid msg st)"
| "step cfg e (DelVideo sid msg) st = snd (del_video e cfg sid msg st)"
| "step cfg e (AddComment sid msg) st = snd (add_comment e cfg sid msg st)"
| "step cfg e (EditComment sid msg) st = snd (edit_comment e cfg sid msg st)"
| "step cfg e (DelCommentReq sid msg) st = snd (del_comment e cfg sid msg st)"
| "step cfg e (ListMyMessages sid) st = snd (list_my_messages e sid st)"
| "step cfg e (Upload headers parts) st = snd (post_upload_file e cfg headers parts st)"
| "step cfg e (Push msg) st = snd (push_message e msg True True st)"

fun run :: "config \<Rightarrow> (env \<times> request) list \<Rightarrow> state \<Rightarrow> state" where
  "run cfg [] st = st"
| "run cfg ((e, r) # rs) st = run cfg rs (step cfg e r st)"

definition init_state :: "video list \<Rightarrow> state" where
  \<comment> \<open>the server at start: the videos the ingestion has stored, nothing else\<close>
  "init_state vs =
     \<lparr>db_videos = vs, db_comments = [], db_messages = [],
      db_next_comment_id = 1, db_next_message_id = 1,
      userid_to_sid = Map.empty, sessions = Map.empty, rooms = {},
      emitted = [], files = Map.empty, dirs = {}, ingested = []\<rparr>"


section \<open>Predicates on runs and on the message store\<close>

fun is_listing :: "request \<Rightarrow> bool" where
  "is_listing (ListMyMessages sid) = True"
| "is_listing _ = False"

text \<open>No request of the run is a \<^verbatim>\<open>list_my_messages\<close> sent over a connection whose
  session, at that moment, belongs to the identity \<open>uid\<close>.\<close>

fun listing_by :: "string \<Rightarrow> request \<Rightarrow> state \<Rightarrow> bool" where
  "listing_by uid (ListMyMessages sid) st =
     (case sessions st sid of None \<Rightarrow> False | Some (u, n) \<Rightarrow> u = uid)"
| "listing_by uid _ st = False"

fun no_listing_by :: "string \<Rightarrow> config \<Rightarrow> (env \<times> request) list \<Rightarrow> state \<Rightarrow> bool" where
  "no_listing_by uid cfg [] st = True"
| "no_listing_by uid cfg ((e, r) # rs) st =
     (if listing_by uid r st then False else no_listing_by uid cfg rs (step cfg e r st))"

text \<open>The state \<open>st'\<close> has the messages of \<open>st\<close>, unchanged, followed by new ones
  whose ids were drawn from the counter.\<close>

definition appended :: "state \<Rightarrow> state \<Rightarrow> bool" where
  "appended st st' =
     (\<exists>new. db_messages st' = db_messages st @ new
        \<and> distinct (map m_id new)
        \<and> (\<forall>m \<in> set new. \<exists>i. m_id m = Some i
               \<and> db_next_message_id st \<le> i \<and> i < db_next_message_id st')
        \<and> db_next_message_id st \<le> db_next_message_id st')"

text \<open>Every stored message has an id below the counter, and no two share an id.\<close>

definition msg_ids_ok :: "state \<Rightarrow> bool" where
  "msg_ids_ok st =
     (distinct (map m_id (db_messages st))
      \<and> (\<forall>m \<in> set (db_messages st). \<exists>i. m_id m = Some i \<and> i < db_next_message_id st))"

text \<open>What \<^verbatim>\<open>set_message_seen(id, True)\<close> for every id of \<open>S\<close> makes of the messages.\<close>

definition mark_seen :: "int option set \<Rightarrow> message list \<Rightarrow> message list" where
  "mark_seen S ms = map (\<lambda>m. if m_id m \<in> S then m\<lparr>m_seen := True\<rparr> else m) ms"

section \<open>Example inputs\<close>

definition ex_env :: env where
  "ex_env =
     \<lparr>db_fails = False, emit_fails = False, fs_fault = NoFault, now = 1000, uuid4 = ''7f3a9c'',
      sha256_hexdigest = (\<lambda>b. ''9f86d081884c7d659a2feaa0c55ad015a3bf4f1b2b0b822c''),
      datauri_parse = (\<lambda>s. if s = ''data:image/webp;base64,UklGRg==''
                             then Some (''image/webp'', DataBytes ''RIFF'')
                           else if s = ''data:image/webp,hello''
                             then Some (''image/webp'', DataStr ''hello'')
                           else None),
      datauri_make = (\<lambda>b. ''data:image/webp;charset=utf-8;base64,'' @ b),
      url_quote = (\<lambda>s. s),
      fps_str = (\<lambda>s. s),
      db_accepts = (\<lambda>c cs. True)\<rparr>"

definition ex_cfg :: config where
  "ex_cfg = \<lparr>url_base = ''https://example.com/'', videos_dir = [''data'', ''videos''],
             upload_dir = [''data'', ''upload''], has_ingest_callback = True\<rparr>"

definition ex_video :: "string \<Rightarrow> video" where
  "ex_video h =
     \<lparr>v_video_hash = h, v_added_by_userid = ''alice'', v_added_by_username = ''Alice'',
      v_orig_filename = ''clip.mov'', v_recompression_done = True, v_fps = ''25'',
      v_added_time = ''2022-10-01T12:00:00'', v_duration = ''10''\<rparr>"

definition headers_of :: "string \<Rightarrow> string \<Rightarrow> (string \<rightharpoonup> string)" where
  "headers_of uid name = [''X-Remote-User-Id'' \<mapsto> uid, ''X-Remote-User-Name'' \<mapsto> name]"

definition ex_msg :: client_msg where
  "ex_msg = \<lparr>msg_video_hash = None, msg_parent_id = None, msg_comment = None,
             msg_timecode = None, msg_drawing = None, msg_comment_id = None\<rparr>"

definition alice_connected :: state where
  \<comment> \<open>alice has connected as \<open>c1\<close> to a server that holds the video \<open>vid1\<close>\<close>
  "alice_connected = step ex_cfg ex_env (Connect ''c1'' (headers_of ''alice'' ''Alice''))
                       (init_state [ex_video ''vid1''])"

definition ex_comment :: "int \<Rightarrow> string \<Rightarrow> int option \<Rightarrow> string \<Rightarrow> string \<Rightarrow> comment" where
  "ex_comment i h p uid txt =
     \<lparr>c_id = Some i, c_video_hash = h, c_parent_id = p, c_user_id = uid, c_username = uid,
      c_comment = txt, c_timecode = [], c_drawing = None\<rparr>"

definition say :: "string \<Rightarrow> int option \<Rightarrow> string \<Rightarrow> client_msg" where
  \<comment> \<open>the payload \<^verbatim>\<open>{video_hash, parent_id, comment}\<close> of an \<^verbatim>\<open>add_comment\<close> event\<close>
  "say h p txt = ex_msg\<lparr>msg_video_hash := Some h, msg_parent_id := p, msg_comment := Some txt\<rparr>"

definition ex_state :: state where
  \<comment> \<open>two videos; alice and bob are connected; bob has replied to alice's comment\<close>
  "ex_state =
     \<lparr>db_videos = [ex_video ''vid1'', ex_video ''vid2''],
      db_comments = [ex_comment 1 ''vid1'' None ''alice'' ''first'',
                     ex_comment 2 ''vid1'' (Some 1) ''bob'' ''reply'',
                     ex_comment 3 ''vid2'' None ''bob'' ''other''],
      db_messages = [], db_next_comment_id = 4, db_next_message_id = 1,
      userid_to_sid = [''alice'' \<mapsto> ''c1'', ''bob'' \<mapsto> ''c2''],
      sessions = [''c1'' \<mapsto> (''alice'', ''Alice''), ''c2'' \<mapsto> (''bob'', ''Bob'')],
      rooms = {(''c1'', ''c1''), (''c1'', ''huoneusto''), (''c2'', ''c2''), (''c2'', ''huoneusto'')},
      emitted = [], files = Map.empty, dirs = {}, ingested = []\<rparr>"

definition cross_video_run :: "(env \<times> request) list" where
  \<comment> \<open>alice comments on \<open>vid1\<close>, then replies to that comment from \<open>vid2\<close>\<close>
  "cross_video_run =
     [(ex_env, Connect ''c1'' (headers_of ''alice'' ''alice'')),
      (ex_env, AddComment ''c1'' (say ''vid1'' None ''first'')),
      (ex_env, AddComment ''c1'' (say ''vid2'' (Some 1) ''reply''))]"

definition unrouted_run :: "(env \<times> request) list" where
  \<comment> \<open>alice comments and replies as \<open>c1\<close>, connects again as \<open>c2\<close>, then \<open>c1\<close> disconnects\<close>
  "unrouted_run =
     [(ex_env, Connect ''c1'' (headers_of ''alice'' ''alice'')),
      (ex_env, AddComment ''c1'' (say ''vid1'' None ''first'')),
      (ex_env, AddComment ''c1'' (say ''vid1'' (Some 1) ''reply'')),
      (ex_env, Connect ''c2'' (headers_of ''alice'' ''alice'')),
      (ex_env, Disconnect ''c1'')]"

definition ex_note :: message where
  \<comment> \<open>a notification for alice, as the ingestion pushes one\<close>
  "ex_note = Message ''ok'' ''alice'' (Some ''vid1'') None ''Video added.'' None"

definition pushed_offline :: state where
  \<comment> \<open>the note is pushed while nobody is connected\<close>
  "pushed_offline = step ex_cfg ex_env (Push ex_note) (init_state [ex_video ''vid1''])"

definition ex_upload :: "string \<Rightarrow> string \<Rightarrow> upload_field" where
  "ex_upload name filename = \<lparr>f_name = name, f_filename = Some filename, f_chunks = [''abc'', ''def'']\<rparr>"

section \<open>Basic facts about the handlers\<close>

lemmas monad_defs = then_do_def try_except_def lift_def py_assert_def getitem_def

lemma with_user_session:
  "sessions st sid = Some (uid, uname) \<Longrightarrow>
     with_user sid st body handler = try_except (body uid uname st) (handler uid)"
  by (simp add: with_user_def get_user_def)

lemma push_nopersist:
  "snd (push_message e m dt False st) =
     st\<lparr>emitted := emitted st @
          (case userid_to_sid st (m_user_id m) of
             None \<Rightarrow> []
           | Some s \<Rightarrow> if emit_fails e then [] else [(s, MessageEv m)])\<rparr>"
  by (simp add: push_message_def sio_emit_def split: option.splits)

lemma push_dont_throw: "fst (push_message e m True persist st) = Inr ()"
  by (auto simp: push_message_def sio_emit_def db_add_message_def Let_def split: option.splits)


subsection \<open>The payload of a comment event\<close>

lemma new_comment_data_id:
  "new_comment_data e cfg c st = Inr d \<Longrightarrow>
     c_id d = c_id c \<and> c_video_hash d = c_video_hash c \<and> c_parent_id d = c_parent_id c"
  by (auto simp: new_comment_data_def Let_def split: option.splits if_splits)

lemma new_comment_data_text:
  "new_comment_data e cfg c st = Inr d \<Longrightarrow>
     c_comment d = c_comment c \<or> c_comment d = c_comment c @ '' [DRAWING NOT FOUND]''"
  by (auto simp: new_comment_data_def Let_def split: option.splits if_splits)

lemma new_comment_data_cong:
  "files st' = files st \<Longrightarrow> dirs st' = dirs st \<Longrightarrow>
     new_comment_data e cfg c st' = new_comment_data e cfg c st"
  by (simp add: new_comment_data_def path_exists_def cong: option.case_cong if_cong)

lemma new_comment_data_ids:
  "map (\<lambda>c. new_comment_data e cfg c st) cs = map Inr ds \<Longrightarrow> map c_id ds = map c_id cs"
proof (induction cs arbitrary: ds)
  case Nil
  then show ?case by simp
next
  case (Cons c cs)
  then obtain d ds' where ds: "ds = d # ds'" by (cases ds) auto
  with Cons.prems have "new_comment_data e cfg c st = Inr d"
    and "map (\<lambda>c. new_comment_data e cfg c st) cs = map Inr ds'" by simp_all
  then show ?case using Cons.IH [of ds'] ds new_comment_data_id [of e cfg c st d] by simp
qed


lemma emit_comments_ok:
  assumes "\<not> emit_fails e" "map (\<lambda>c. new_comment_data e cfg c st) cs = map Inr ds"
    and "files st' = files st" "dirs st' = dirs st"
  shows "emit_comments e cfg cs room st' =
           (Inr (), st'\<lparr>emitted := emitted st' @ map (\<lambda>d. (room, NewComment d)) ds\<rparr>)"
  using assms
proof (induction cs arbitrary: ds st')
  case Nil
  then show ?case by simp
next
  case (Cons c cs)
  then obtain d ds' where ds: "ds = d # ds'" by (cases ds) auto
  have eq: "new_comment_data e cfg c st' = new_comment_data e cfg c st"
    using Cons.prems(3,4) by (rule new_comment_data_cong)
  have hd: "new_comment_data e cfg c st = Inr d" using Cons.prems(2) ds by simp
  have tl: "map (\<lambda>c. new_comment_data e cfg c st) cs = map Inr ds'" using Cons.prems(2) ds by simp
  show ?case
    using Cons.IH [OF Cons.prems(1) tl, of "st'\<lparr>emitted := emitted st' @ [(room, NewComment d)]\<rparr>"]
      Cons.prems(1,3,4) eq hd ds
    by (simp add: emit_new_comment_def monad_defs sio_emit_def)
qed

subsection \<open>The example states\<close>

lemmas eval_defs = sio_connect_def connect_def sio_disconnect_def disconnect_def sio_emit_def
  sio_enter_room_def user_from_headers_def headers_of_def py_or_def truthy_def or_str_def
  ex_env_def init_state_def add_comment_def add_comment_body_def with_user_def get_user_def
  monad_defs db_get_video_def db_add_comment_def store_drawing_def emit_new_comment_def
  new_comment_data_def comment_from_def int_or_none_def str_or_none_def say_def ex_msg_def
  ex_video_def ex_cfg_def Let_def

lemma cross_video_state:
  "run ex_cfg cross_video_run (init_state [ex_video ''vid1'', ex_video ''vid2'']) =
    \<lparr>db_videos = [ex_video ''vid1'', ex_video ''vid2''],
     db_comments = [ex_comment 1 ''vid1'' None ''alice'' ''first'',
                    ex_comment 2 ''vid2'' (Some 1) ''alice'' ''reply''],
     db_messages = [], db_next_comment_id = 3, db_next_message_id = 1,
     userid_to_sid = [''alice'' \<mapsto> ''c1''],
     sessions = [''c1'' \<mapsto> (''alice'', ''alice'')],
     rooms = {(''c1'', ''c1''), (''c1'', ''huoneusto'')},
     emitted = [(''c1'', Welcome ''alice'' ''alice''),
                (''vid1'', NewComment (ex_comment 1 ''vid1'' None ''alice'' ''first'')),
                (''vid2'', NewComment (ex_comment 2 ''vid2'' (Some 1) ''alice'' ''reply''))],
     files = Map.empty, dirs = {}, ingested = []\<rparr>"
  apply (simp add: cross_video_run_def eval_defs ex_comment_def)
  apply (auto simp: fun_eq_iff)
  done

lemma unrouted_state:
  "run ex_cfg unrouted_run (init_state [ex_video ''vid1'']) =
    \<lparr>db_videos = [ex_video ''vid1''],
     db_comments = [ex_comment 1 ''vid1'' None ''alice'' ''first'',
                    ex_comment 2 ''vid1'' (Some 1) ''alice'' ''reply''],
     db_messages = [], db_next_comment_id = 3, db_next_message_id = 1,
     userid_to_sid = Map.empty,
     sessions = [''c2'' \<mapsto> (''alice'', ''alice'')],
     rooms = {(''c2'', ''c2''), (''c2'', ''huoneusto'')},
     emitted = [(''c1'', Welcome ''alice'' ''alice''),
                (''vid1'', NewComment (ex_comment 1 ''vid1'' None ''alice'' ''first'')),
                (''vid1'', NewComment (ex_comment 2 ''vid1'' (Some 1) ''alice'' ''reply'')),
                (''c2'', Welcome ''alice'' ''alice'')],
     files = Map.empty, dirs = {}, ingested = []\<rparr>"
  apply (simp add: unrouted_run_def eval_defs ex_comment_def)
  apply (auto simp: fun_eq_iff)
  done



section \<open>The Mailbox push operation: persistence, then delivery\<close>

lemma push_message_raised:
  "persist \<Longrightarrow> db_fails e \<Longrightarrow> \<not> dont_throw \<Longrightarrow>
     push_message e msg dont_throw persist st = (Inl StorageError, st)"
  by (simp add: push_message_def db_add_message_def)

lemma push_message_delivery:
  assumes "\<not> (persist \<and> db_fails e \<and> \<not> dont_throw)"
    and "msg1 = (if persist \<and> \<not> db_fails e
                 then msg\<lparr>m_id := Some (db_next_message_id st), m_created := Some (now e)\<rparr>
                 else msg)"
  shows "db_messages (snd (push_message e msg dont_throw persist st)) =
           (if persist \<and> \<not> db_fails e then db_messages st @ [msg1] else db_messages st)"
    and "emitted (snd (push_message e msg dont_throw persist st)) =
           (case userid_to_sid st (m_user_id msg) of
              None \<Rightarrow> emitted st
            | Some sid \<Rightarrow> if emit_fails e then emitted st else emitted st @ [(sid, MessageEv msg1)])"
    and "fst (push_message e msg dont_throw persist st) =
           (if userid_to_sid st (m_user_id msg) \<noteq> None \<and> emit_fails e \<and> \<not> dont_throw
            then Inl EmitError else Inr ())"
  using assms
  by (auto simp: push_message_def db_add_message_def sio_emit_def Let_def split: option.splits)

lemma alice_connected_route: "userid_to_sid alice_connected ''alice'' = Some ''c1''"
  by (simp add: alice_connected_def sio_connect_def connect_def sio_emit_def sio_enter_room_def
      user_from_headers_def headers_of_def py_or_def truthy_def or_str_def ex_env_def init_state_def)

lemma alice_connected_emitted: "emitted alice_connected = [(''c1'', Welcome ''Alice'' ''alice'')]"
  by (simp add: alice_connected_def sio_connect_def connect_def sio_emit_def sio_enter_room_def
      user_from_headers_def headers_of_def py_or_def truthy_def or_str_def ex_env_def init_state_def)

text \<open>
  Claim C3, as the code has it. When \<open>persist\<close> is set, storage fails and \<open>dont_throw\<close>
  is unset, the push raises the persistence failure and stops: nothing is stored and
  nothing is emitted. In every other case the notification is first written through
  storage exactly when \<open>persist\<close> is set and storage works; then it is emitted to the
  connection the recipient routes to, exactly when there is such a route and the emit
  does not fail (carrying the stored row when it was stored); and a failing emit is
  raised exactly when \<open>dont_throw\<close> is unset.
\<close>

theorem push_message_persist_then_deliver:
  "(persist \<and> db_fails e \<and> \<not> dont_throw \<longrightarrow>
      push_message e msg dont_throw persist st = (Inl StorageError, st))
   \<and> (\<not> (persist \<and> db_fails e \<and> \<not> dont_throw) \<longrightarrow>
      db_messages (snd (push_message e msg dont_throw persist st)) =
        (if persist \<and> \<not> db_fails e
         then db_messages st @ [msg\<lparr>m_id := Some (db_next_message_id st), m_created := Some (now e)\<rparr>]
         else db_messages st)
      \<and> emitted (snd (push_message e msg dont_throw persist st)) =
        (case userid_to_sid st (m_user_id msg) of
           None \<Rightarrow> emitted st
         | Some sid \<Rightarrow>
             if emit_fails e then emitted st
             else emitted st @ [(sid, MessageEv
                    (if persist \<and> \<not> db_fails e
                     then msg\<lparr>m_id := Some (db_next_message_id st), m_created := Some (now e)\<rparr>
                     else msg))])
      \<and> fst (push_message e msg dont_throw persist st) =
        (if userid_to_sid st (m_user_id msg) \<noteq> None \<and> emit_fails e \<and> \<not> dont_throw
         then Inl EmitError else Inr ()))"
proof (cases "persist \<and> db_fails e \<and> \<not> dont_throw")
  case True
  then show ?thesis by (simp add: push_message_raised)
next
  case False
  note d = push_message_delivery [OF False refl, of msg st]
  show ?thesis
  proof (intro conjI impI)
    assume "persist \<and> db_fails e \<and> \<not> dont_throw"
    with False show "push_message e msg dont_throw persist st = (Inl StorageError, st)"
      by blast
  next
    show "db_messages (snd (push_message e msg dont_throw persist st)) =
        (if persist \<and> \<not> db_fails e
         then db_messages st @ [msg\<lparr>m_id := Some (db_next_message_id st), m_created := Some (now e)\<rparr>]
         else db_messages st)"
      using d(1) by simp
  next
    show "emitted (snd (push_message e msg dont_throw persist st)) =
        (case userid_to_sid st (m_user_id msg) of
           None \<Rightarrow> emitted st
         | Some sid \<Rightarrow>
             if emit_fails e then emitted st
             else emitted st @ [(sid, MessageEv
                    (if persist \<and> \<not> db_fails e
                     then msg\<lparr>m_id := Some (db_next_message_id st), m_created := Some (now e)\<rparr>
                     else msg))])"
      using d(2) by simp
  next
    show "fst (push_message e msg dont_throw persist st) =
        (if userid_to_sid st (m_user_id msg) \<noteq> None \<and> emit_fails e \<and> \<not> dont_throw
         then Inl EmitError else Inr ())"
      using d(3) by simp
  qed
qed

theorem push_message_persist_then_deliver_witness:
  "push_message (ex_env\<lparr>db_fails := True\<rparr>) (Message ''ok'' ''alice'' None None ''Video deleted.'' None)
       False True alice_connected = (Inl StorageError, alice_connected)
   \<and> emitted (snd (push_message (ex_env\<lparr>db_fails := True\<rparr>)
         (Message ''ok'' ''alice'' None None ''Video deleted.'' None) True True alice_connected)) =
       [(''c1'', Welcome ''Alice'' ''alice''),
        (''c1'', MessageEv (Message ''ok'' ''alice'' None None ''Video deleted.'' None))]
   \<and> fst (push_message (ex_env\<lparr>emit_fails := True\<rparr>)
         (Message ''ok'' ''alice'' None None ''Video deleted.'' None) False True alice_connected) =
       Inl EmitError"
  using push_message_persist_then_deliver [of True "ex_env\<lparr>db_fails := True\<rparr>" False
      "Message ''ok'' ''alice'' None None ''Video deleted.'' None" alice_connected]
    push_message_persist_then_deliver [of True "ex_env\<lparr>db_fails := True\<rparr>" True
      "Message ''ok'' ''alice'' None None ''Video deleted.'' None" alice_connected]
    push_message_persist_then_deliver [of True "ex_env\<lparr>emit_fails := True\<rparr>" False
      "Message ''ok'' ''alice'' None None ''Video deleted.'' None" alice_connected]
  by (simp add: ex_env_def Message_def alice_connected_route alice_connected_emitted)

text \<open>
  Claim C3 as stated fails: with \<open>persist\<close> set and \<open>dont_throw\<close> unset, a
  persistence failure ends the push before the delivery step, although the recipient
  routes to a connection and the emit would succeed.
\<close>

theorem push_message_delivery_counterexample:
  "userid_to_sid alice_connected ''alice'' = Some ''c1''
   \<and> \<not> emit_fails (ex_env\<lparr>db_fails := True\<rparr>)
   \<and> emitted (snd (push_message (ex_env\<lparr>db_fails := True\<rparr>)
         (Message ''ok'' ''alice'' None None ''Video deleted.'' None) False True alice_connected)) =
       emitted alice_connected"
  by (simp add: push_message_def db_add_message_def ex_env_def alice_connected_route)

section \<open>Disconnect of a superseded connection\<close>

lemma disconnect_superseded:
  assumes "sessions st c1 = Some (uid, n1)" "c1 \<noteq> c2" "fst (user_from_headers environ) = uid"
  shows "userid_to_sid (snd (sio_connect e c2 environ st)) uid = Some c2"
    and "userid_to_sid (snd (sio_disconnect c1 (snd (sio_connect e c2 environ st)))) uid = None"
    and "sessions (snd (sio_disconnect c1 (snd (sio_connect e c2 environ st)))) c2
           = Some (user_from_headers environ)"
  using assms
  by (auto simp: sio_connect_def connect_def sio_disconnect_def disconnect_def sio_emit_def
      sio_enter_room_def get_user_def Let_def split: prod.splits option.splits)

lemma push_message_unrouted:
  "userid_to_sid st (m_user_id msg) = None \<Longrightarrow>
     emitted (snd (push_message e msg dont_throw persist st)) = emitted st"
  by (auto simp: push_message_def db_add_message_def Let_def)

text \<open>
  Claim C10. Let connection \<open>c1\<close> hold a session of identity \<open>uid\<close>, and let the same
  identity connect again as \<open>c2\<close>: the registry then maps \<open>uid\<close> to \<open>c2\<close>. When the
  superseded \<open>c1\<close> disconnects, the entry of \<open>uid\<close> is removed although \<open>c2\<close> still
  has its session, and a push addressed to \<open>uid\<close> emits nothing.
\<close>

theorem disconnect_superseded_drops_route:
  assumes "sessions st c1 = Some (uid, n1)" and "c1 \<noteq> c2"
    and "fst (user_from_headers environ) = uid" and "m_user_id msg = uid"
  shows "userid_to_sid (snd (sio_connect e c2 environ st)) uid = Some c2
       \<and> userid_to_sid (snd (sio_disconnect c1 (snd (sio_connect e c2 environ st)))) uid = None
       \<and> sessions (snd (sio_disconnect c1 (snd (sio_connect e c2 environ st)))) c2
           = Some (user_from_headers environ)
       \<and> emitted (snd (push_message e' msg dont_throw persist
                    (snd (sio_disconnect c1 (snd (sio_connect e c2 environ st))))))
           = emitted (snd (sio_disconnect c1 (snd (sio_connect e c2 environ st))))"
  using disconnect_superseded [OF assms(1,2,3)] assms(4) push_message_unrouted by simp

lemma alice_connected_session: "sessions alice_connected ''c1'' = Some (''alice'', ''Alice'')"
  by (simp add: alice_connected_def sio_connect_def connect_def sio_emit_def sio_enter_room_def
      user_from_headers_def headers_of_def py_or_def truthy_def or_str_def ex_env_def init_state_def)

lemma alice_headers: "user_from_headers (headers_of ''alice'' ''Alice'') = (''alice'', ''Alice'')"
  by (simp add: user_from_headers_def headers_of_def py_or_def truthy_def or_str_def)

theorem disconnect_superseded_drops_route_witness:
  "sessions alice_connected ''c1'' = Some (''alice'', ''Alice'') \<and> ''c1'' \<noteq> ''c2''
   \<and> fst (user_from_headers (headers_of ''alice'' ''Alice'')) = ''alice''
   \<and> userid_to_sid (snd (sio_connect ex_env ''c2'' (headers_of ''alice'' ''Alice'') alice_connected))
        ''alice'' = Some ''c2''
   \<and> userid_to_sid (snd (sio_disconnect ''c1''
        (snd (sio_connect ex_env ''c2'' (headers_of ''alice'' ''Alice'') alice_connected)))) ''alice'' = None
   \<and> sessions (snd (sio_disconnect ''c1''
        (snd (sio_connect ex_env ''c2'' (headers_of ''alice'' ''Alice'') alice_connected)))) ''c2''
        = Some (''alice'', ''Alice'')
   \<and> emitted (snd (push_message ex_env (Message ''ok'' ''alice'' None None ''Video deleted.'' None)
        True True (snd (sio_disconnect ''c1''
           (snd (sio_connect ex_env ''c2'' (headers_of ''alice'' ''Alice'') alice_connected))))))
        = emitted (snd (sio_disconnect ''c1''
           (snd (sio_connect ex_env ''c2'' (headers_of ''alice'' ''Alice'') alice_connected))))"
proof -
  have h1: "sessions alice_connected ''c1'' = Some (''alice'', ''Alice'')"
    by (rule alice_connected_session)
  have h2: "''c1'' \<noteq> ''c2''" by simp
  have h3: "fst (user_from_headers (headers_of ''alice'' ''Alice'')) = ''alice''"
    by (simp add: alice_headers)
  have h4: "m_user_id (Message ''ok'' ''alice'' None None ''Video deleted.'' None) = ''alice''"
    by (simp add: Message_def)
  show ?thesis
    using disconnect_superseded_drops_route [OF h1 h2 h3 h4, of ex_env ex_env True True] h1 h3
    by (simp add: alice_headers)
qed


section \<open>Opening a video\<close>

lemma ex_state_session_c1: "sessions ex_state ''c1'' = Some (''alice'', ''Alice'')"
  by (simp add: ex_state_def)

lemma ex_state_session_c2: "sessions ex_state ''c2'' = Some (''bob'', ''Bob'')"
  by (simp add: ex_state_def)

lemma ex_state_comment1:
  "find (\<lambda>c. c_id c = Some 1) (db_comments ex_state) = Some (ex_comment 1 ''vid1'' None ''alice'' ''first'')"
  by (simp add: ex_state_def ex_comment_def)

text \<open>
  Claim C5. Let the caller have a session, let the video \<open>h\<close> exist, let storage and
  the socket layer work, and let \<open>ds\<close> be the payloads that the drawing resolution
  gives for the stored comments of \<open>h\<close>, in storage order. Then \<open>open_video\<close> enters
  the caller into room \<open>h\<close> and emits to the caller one \<open>open_video\<close> event with the
  descriptor of the video, followed by one \<open>new_comment\<close> event per stored comment, in
  storage order, and nothing else; the payloads carry the ids of the stored comments.
\<close>

theorem open_video_snapshot:
  assumes "sessions st sid = Some (uid, uname)"
    and "msg_video_hash msg = Some h"
    and "find (\<lambda>v. v_video_hash v = h) (db_videos st) = Some v"
    and "\<not> db_fails e" and "\<not> emit_fails e"
    and "map (\<lambda>c. new_comment_data e cfg c st) (filter (\<lambda>c. c_video_hash c = h) (db_comments st))
           = map Inr ds"
  shows "open_video e cfg sid msg st =
           (Inr (), st\<lparr>rooms := insert (sid, h) (rooms st),
                        emitted := emitted st @ (sid, OpenVideo (dict_for_video e cfg v))
                                     # map (\<lambda>d. (sid, NewComment d)) ds\<rparr>)
       \<and> map c_id ds = map c_id (filter (\<lambda>c. c_video_hash c = h) (db_comments st))"
proof
  show "open_video e cfg sid msg st =
           (Inr (), st\<lparr>rooms := insert (sid, h) (rooms st),
                        emitted := emitted st @ (sid, OpenVideo (dict_for_video e cfg v))
                                     # map (\<lambda>d. (sid, NewComment d)) ds\<rparr>)"
    using assms
    by (simp add: open_video_def open_video_body_def with_user_session monad_defs db_get_video_def
        db_get_video_comments_def sio_emit_def sio_enter_room_def
        emit_comments_ok [where st=st and ds=ds])
  show "map c_id ds = map c_id (filter (\<lambda>c. c_video_hash c = h) (db_comments st))"
    using assms(6) by (rule new_comment_data_ids)
qed

theorem open_video_snapshot_witness:
  "sessions ex_state ''c1'' = Some (''alice'', ''Alice'')
   \<and> find (\<lambda>v. v_video_hash v = ''vid1'') (db_videos ex_state) = Some (ex_video ''vid1'')
   \<and> open_video ex_env ex_cfg ''c1'' (ex_msg\<lparr>msg_video_hash := Some ''vid1''\<rparr>) ex_state =
       (Inr (), ex_state\<lparr>rooms := insert (''c1'', ''vid1'') (rooms ex_state),
          emitted := [(''c1'', OpenVideo (dict_for_video ex_env ex_cfg (ex_video ''vid1''))),
                      (''c1'', NewComment (ex_comment 1 ''vid1'' None ''alice'' ''first'')),
                      (''c1'', NewComment (ex_comment 2 ''vid1'' (Some 1) ''bob'' ''reply''))]\<rparr>)"
proof -
  have h1: "sessions ex_state ''c1'' = Some (''alice'', ''Alice'')" by (rule ex_state_session_c1)
  have h2: "msg_video_hash (ex_msg\<lparr>msg_video_hash := Some ''vid1''\<rparr>) = Some ''vid1''" by simp
  have h3: "find (\<lambda>v. v_video_hash v = ''vid1'') (db_videos ex_state) = Some (ex_video ''vid1'')"
    by (simp add: ex_state_def ex_video_def)
  have h4: "\<not> db_fails ex_env" by (simp add: ex_env_def)
  have h5: "\<not> emit_fails ex_env" by (simp add: ex_env_def)
  have h6: "map (\<lambda>c. new_comment_data ex_env ex_cfg c ex_state)
              (filter (\<lambda>c. c_video_hash c = ''vid1'') (db_comments ex_state))
            = map Inr [ex_comment 1 ''vid1'' None ''alice'' ''first'',
                       ex_comment 2 ''vid1'' (Some 1) ''bob'' ''reply'']"
    by (simp add: ex_state_def ex_comment_def new_comment_data_def)
  have em: "emitted ex_state = []" by (simp add: ex_state_def)
  show ?thesis
    using open_video_snapshot [OF h1 h2 h3 h4 h5 h6] h1 h3 em by simp
qed

section \<open>Editing a comment\<close>

lemma find_edit:
  "find (\<lambda>c. c_id c = Some cid)
        (map (\<lambda>c. if c_id c = Some cid then c\<lparr>c_comment := txt\<rparr> else c) cs)
     = map_option (\<lambda>c. c\<lparr>c_comment := txt\<rparr>) (find (\<lambda>c. c_id c = Some cid) cs)"
  by (induction cs) auto

lemma edit_comment_authorised:
  assumes "sessions st sid = Some (uid, uname)" "uid \<noteq> []" "uname \<noteq> []"
    and "msg_comment_id msg = Some cid" "msg_comment msg = Some txt"
    and "find (\<lambda>c. c_id c = Some cid) (db_comments st) = Some old"
    and "uid = c_user_id old \<or> uid = ''admin''"
    and "\<not> db_fails e" "\<not> emit_fails e"
    and "new_comment_data e cfg (old\<lparr>c_comment := txt\<rparr>) st = Inr d"
  shows "edit_comment e cfg sid msg st =
     (Inr (), st\<lparr>db_comments := map (\<lambda>c. if c_id c = Some cid then c\<lparr>c_comment := txt\<rparr> else c)
                                     (db_comments st),
                  emitted := emitted st @ [(c_video_hash old, DelComment cid),
                                           (c_video_hash old, NewComment d)]\<rparr>)"
proof -
  let ?st2 = "st\<lparr>db_comments := map (\<lambda>c. if c_id c = Some cid then c\<lparr>c_comment := txt\<rparr> else c)
                                    (db_comments st),
                 emitted := emitted st @ [(c_video_hash old, DelComment cid)]\<rparr>"
  have d: "new_comment_data e cfg (old\<lparr>c_comment := txt\<rparr>) ?st2 = Inr d"
    using assms(10) new_comment_data_cong [of ?st2 st] by simp
  show ?thesis
    using assms(1-9) d
    by (simp add: edit_comment_def edit_comment_body_def with_user_session monad_defs
        db_get_comment_def db_edit_comment_def sio_emit_def emit_new_comment_def find_edit Let_def)
qed

lemma edit_comment_body_unauthorised:
  assumes "msg_comment_id msg = Some cid"
    and "find (\<lambda>c. c_id c = Some cid) (db_comments st) = Some old"
    and "uid \<noteq> c_user_id old" "uid \<noteq> ''admin''"
  shows "\<exists>x. edit_comment_body e cfg sid msg uid uname st = (Inl x, st)"
  using assms
  by (simp add: edit_comment_body_def monad_defs db_get_comment_def Let_def split: option.splits)

lemma edit_comment_unauthorised:
  assumes "sessions st sid = Some (uid, uname)"
    and "msg_comment_id msg = Some cid"
    and "find (\<lambda>c. c_id c = Some cid) (db_comments st) = Some old"
    and "uid \<noteq> c_user_id old" "uid \<noteq> ''admin''"
  shows "\<exists>det. edit_comment e cfg sid msg st =
     (Inr (), st\<lparr>emitted := emitted st @
          (case userid_to_sid st uid of
             None \<Rightarrow> []
           | Some s \<Rightarrow> if emit_fails e then []
                       else [(s, MessageEv (Message ''error'' uid (msg_video_hash msg) (Some cid)
                                   ''Failed to edit comment.'' (Some det)))])\<rparr>)"
proof -
  obtain x where "edit_comment_body e cfg sid msg uid uname st = (Inl x, st)"
    using edit_comment_body_unauthorised [OF assms(2-5)] by blast
  then have "edit_comment e cfg sid msg st =
          push_message e (Message ''error'' uid (msg_video_hash msg) (Some cid)
                            ''Failed to edit comment.'' (Some (str_of_error x))) True False st"
    using assms(1,2) by (simp add: edit_comment_def with_user_session try_except_def)
  then have "edit_comment e cfg sid msg st =
     (Inr (), st\<lparr>emitted := emitted st @
          (case userid_to_sid st uid of
             None \<Rightarrow> []
           | Some s \<Rightarrow> if emit_fails e then []
                       else [(s, MessageEv (Message ''error'' uid (msg_video_hash msg) (Some cid)
                                   ''Failed to edit comment.'' (Some (str_of_error x))))])\<rparr>)"
    using push_nopersist [of e "Message ''error'' uid (msg_video_hash msg) (Some cid)
                            ''Failed to edit comment.'' (Some (str_of_error x))" True st]
      push_dont_throw [of e "Message ''error'' uid (msg_video_hash msg) (Some cid)
                            ''Failed to edit comment.'' (Some (str_of_error x))" False st]
    by (simp add: prod_eq_iff) (simp add: Message_def)
  then show ?thesis by (rule exI)
qed

text \<open>
  Claim C6. Let the caller have a session and let \<open>cid\<close> be the id of the stored
  comment \<open>old\<close>.

  When the caller is the author of \<open>old\<close> or \<open>admin\<close> (and storage and the socket
  layer work), \<open>edit_comment\<close> replaces the stored text by \<open>txt\<close> and emits to the
  room of the comment's video exactly a \<open>del_comment\<close> event with \<open>cid\<close> followed by
  a \<open>new_comment\<close> event; the payload \<open>d\<close> of the latter is what the drawing
  resolution makes of the updated row: it has the id \<open>cid\<close> and the text \<open>txt\<close>
  (with the marker appended when the drawing file is missing).

  When the caller is neither the author nor \<open>admin\<close>, whatever the environment, the
  state is left as it was but for at most one error message emitted to the connection
  the caller's identity routes to: no comment is changed, nothing is broadcast.
\<close>

theorem edit_comment_events:
  assumes "sessions st sid = Some (uid, uname)"
    and "msg_comment_id msg = Some cid"
    and "find (\<lambda>c. c_id c = Some cid) (db_comments st) = Some old"
  shows "(uid \<noteq> [] \<and> uname \<noteq> [] \<and> (uid = c_user_id old \<or> uid = ''admin'')
          \<and> msg_comment msg = Some txt \<and> \<not> db_fails e \<and> \<not> emit_fails e
          \<and> new_comment_data e cfg (old\<lparr>c_comment := txt\<rparr>) st = Inr d
          \<longrightarrow> edit_comment e cfg sid msg st =
                (Inr (), st\<lparr>db_comments := map (\<lambda>c. if c_id c = Some cid then c\<lparr>c_comment := txt\<rparr> else c)
                                                (db_comments st),
                             emitted := emitted st @ [(c_video_hash old, DelComment cid),
                                                      (c_video_hash old, NewComment d)]\<rparr>)
              \<and> find (\<lambda>c. c_id c = Some cid) (db_comments (snd (edit_comment e cfg sid msg st)))
                  = Some (old\<lparr>c_comment := txt\<rparr>)
              \<and> c_id d = Some cid
              \<and> (c_comment d = txt \<or> c_comment d = txt @ '' [DRAWING NOT FOUND]''))
       \<and> (uid \<noteq> c_user_id old \<and> uid \<noteq> ''admin''
          \<longrightarrow> (\<exists>det. edit_comment e cfg sid msg st =
                 (Inr (), st\<lparr>emitted := emitted st @
                    (case userid_to_sid st uid of
                       None \<Rightarrow> []
                     | Some s \<Rightarrow> if emit_fails e then []
                                 else [(s, MessageEv (Message ''error'' uid (msg_video_hash msg) (Some cid)
                                             ''Failed to edit comment.'' (Some det)))])\<rparr>)))"
proof (intro conjI impI)
  assume a: "uid \<noteq> [] \<and> uname \<noteq> [] \<and> (uid = c_user_id old \<or> uid = ''admin'')
          \<and> msg_comment msg = Some txt \<and> \<not> db_fails e \<and> \<not> emit_fails e
          \<and> new_comment_data e cfg (old\<lparr>c_comment := txt\<rparr>) st = Inr d"
  then have a1: "uid \<noteq> []" and a2: "uname \<noteq> []"
    and a3: "uid = c_user_id old \<or> uid = ''admin''" and a4: "msg_comment msg = Some txt"
    and a5: "\<not> db_fails e" and a6: "\<not> emit_fails e"
    and a7: "new_comment_data e cfg (old\<lparr>c_comment := txt\<rparr>) st = Inr d"
    by simp_all
  have eq: "edit_comment e cfg sid msg st =
                (Inr (), st\<lparr>db_comments := map (\<lambda>c. if c_id c = Some cid then c\<lparr>c_comment := txt\<rparr> else c)
                                                (db_comments st),
                             emitted := emitted st @ [(c_video_hash old, DelComment cid),
                                                      (c_video_hash old, NewComment d)]\<rparr>)"
    by (rule edit_comment_authorised [OF assms(1) a1 a2 assms(2) a4 assms(3) a3 a5 a6 a7])
  then show "edit_comment e cfg sid msg st =
                (Inr (), st\<lparr>db_comments := map (\<lambda>c. if c_id c = Some cid then c\<lparr>c_comment := txt\<rparr> else c)
                                                (db_comments st),
                             emitted := emitted st @ [(c_video_hash old, DelComment cid),
                                                      (c_video_hash old, NewComment d)]\<rparr>)" .
  show "find (\<lambda>c. c_id c = Some cid) (db_comments (snd (edit_comment e cfg sid msg st)))
                  = Some (old\<lparr>c_comment := txt\<rparr>)"
    using eq assms(3) by (simp add: find_edit)
  show "c_id d = Some cid"
    using a new_comment_data_id [of e cfg "old\<lparr>c_comment := txt\<rparr>" st d] assms(3)
    by (auto dest: find_Some_iff [THEN iffD1])
  show "c_comment d = txt \<or> c_comment d = txt @ '' [DRAWING NOT FOUND]''"
    using a new_comment_data_text [of e cfg "old\<lparr>c_comment := txt\<rparr>" st d] by simp
next
  assume "uid \<noteq> c_user_id old \<and> uid \<noteq> ''admin''"
  then show "\<exists>det. edit_comment e cfg sid msg st =
                 (Inr (), st\<lparr>emitted := emitted st @
                    (case userid_to_sid st uid of
                       None \<Rightarrow> []
                     | Some s \<Rightarrow> if emit_fails e then []
                                 else [(s, MessageEv (Message ''error'' uid (msg_video_hash msg) (Some cid)
                                             ''Failed to edit comment.'' (Some det)))])\<rparr>)"
    using edit_comment_unauthorised [OF assms] by blast
qed


theorem edit_comment_events_witness:
  "sessions ex_state ''c1'' = Some (''alice'', ''Alice'')
   \<and> sessions ex_state ''c2'' = Some (''bob'', ''Bob'')
   \<and> find (\<lambda>c. c_id c = Some 1) (db_comments ex_state)
       = Some (ex_comment 1 ''vid1'' None ''alice'' ''first'')
   \<and> emitted (snd (edit_comment ex_env ex_cfg ''c1''
         (ex_msg\<lparr>msg_comment_id := Some 1, msg_comment := Some ''edited''\<rparr>) ex_state))
       = [(''vid1'', DelComment 1),
          (''vid1'', NewComment (ex_comment 1 ''vid1'' None ''alice'' ''edited''))]
   \<and> find (\<lambda>c. c_id c = Some 1) (db_comments (snd (edit_comment ex_env ex_cfg ''c1''
         (ex_msg\<lparr>msg_comment_id := Some 1, msg_comment := Some ''edited''\<rparr>) ex_state)))
       = Some (ex_comment 1 ''vid1'' None ''alice'' ''edited'')
   \<and> (\<exists>det. edit_comment ex_env ex_cfg ''c2''
         (ex_msg\<lparr>msg_comment_id := Some 1, msg_comment := Some ''edited''\<rparr>) ex_state
       = (Inr (), ex_state\<lparr>emitted :=
            [(''c2'', MessageEv (Message ''error'' ''bob'' None (Some 1)
                         ''Failed to edit comment.'' (Some det)))]\<rparr>))"
proof -
  let ?msg = "ex_msg\<lparr>msg_comment_id := Some 1, msg_comment := Some ''edited''\<rparr>"
  have h1: "sessions ex_state ''c1'' = Some (''alice'', ''Alice'')" by (rule ex_state_session_c1)
  have h1': "sessions ex_state ''c2'' = Some (''bob'', ''Bob'')" by (rule ex_state_session_c2)
  have h2: "msg_comment_id ?msg = Some 1" by simp
  have h3: "find (\<lambda>c. c_id c = Some 1) (db_comments ex_state)
       = Some (ex_comment 1 ''vid1'' None ''alice'' ''first'')" by (rule ex_state_comment1)
  have pre: "''alice'' \<noteq> [] \<and> ''Alice'' \<noteq> []
      \<and> (''alice'' = c_user_id (ex_comment 1 ''vid1'' None ''alice'' ''first'') \<or> ''alice'' = ''admin'')
      \<and> msg_comment ?msg = Some ''edited'' \<and> \<not> db_fails ex_env \<and> \<not> emit_fails ex_env
      \<and> new_comment_data ex_env ex_cfg ((ex_comment 1 ''vid1'' None ''alice'' ''first'')\<lparr>c_comment := ''edited''\<rparr>) ex_state
          = Inr (ex_comment 1 ''vid1'' None ''alice'' ''edited'')"
    by (simp add: ex_comment_def ex_env_def new_comment_data_def)
  have pre': "''bob'' \<noteq> c_user_id (ex_comment 1 ''vid1'' None ''alice'' ''first'') \<and> ''bob'' \<noteq> ''admin''"
    by (simp add: ex_comment_def)
  have em: "emitted ex_state = []" "userid_to_sid ex_state ''bob'' = Some ''c2''"
    "msg_video_hash ?msg = None"
    by (simp_all add: ex_state_def ex_msg_def)
  note t1 = edit_comment_events [OF h1 h2 h3, of "''edited''" ex_env ex_cfg
      "ex_comment 1 ''vid1'' None ''alice'' ''edited''", THEN conjunct1, rule_format, OF pre]
  note t2 = edit_comment_events [OF h1' h2 h3, of "''edited''" ex_env ex_cfg
      "ex_comment 1 ''vid1'' None ''alice'' ''edited''", THEN conjunct2, rule_format, OF pre']
  have e1: "emitted (snd (edit_comment ex_env ex_cfg ''c1'' ?msg ex_state))
       = [(''vid1'', DelComment 1),
          (''vid1'', NewComment (ex_comment 1 ''vid1'' None ''alice'' ''edited''))]"
    using t1 [THEN conjunct1] em by (simp add: ex_comment_def)
  have e2: "find (\<lambda>c. c_id c = Some 1) (db_comments (snd (edit_comment ex_env ex_cfg ''c1'' ?msg ex_state)))
       = Some (ex_comment 1 ''vid1'' None ''alice'' ''edited'')"
    using t1 [THEN conjunct2, THEN conjunct1] by (simp add: ex_comment_def)
  have e3: "\<exists>det. edit_comment ex_env ex_cfg ''c2'' ?msg ex_state
       = (Inr (), ex_state\<lparr>emitted :=
            [(''c2'', MessageEv (Message ''error'' ''bob'' None (Some 1)
                         ''Failed to edit comment.'' (Some det)))]\<rparr>)"
    using t2 em by (simp add: ex_env_def)
  show ?thesis using h1 h1' h3 e1 e2 e3 by blast
qed

section \<open>Deleting a comment that has replies\<close>

lemma del_comment_body_with_replies:
  assumes "msg_comment_id msg = Some cid"
    and "find (\<lambda>c. c_id c = Some cid) (db_comments st) = Some old"
    and "list_ex (\<lambda>c. c_parent_id c = Some cid)
           (filter (\<lambda>c. c_video_hash c = c_video_hash old) (db_comments st))"
  shows "\<exists>x. del_comment_body e cfg sid msg uid uname st = (Inl x, st)"
  using assms
  by (simp add: del_comment_body_def monad_defs db_get_comment_def db_get_video_comments_def
      Let_def split: option.splits)

text \<open>
  Claim C2, as the code has it. Let the caller have a session, and let the comment
  \<open>old\<close> with id \<open>cid\<close> have a reply among the stored comments of its own video.
  Then, whoever the caller is and whatever the environment, \<open>del_comment\<close> changes
  nothing but the log of emitted events: the comments and the messages in storage are
  as before, and no \<open>del_comment\<close> event is emitted. What is emitted is one error
  message, to the connection the caller's identity routes to; when the identity has no
  entry in the registry (or the emit fails) nothing is emitted at all.
\<close>

theorem del_comment_with_replies_rejected:
  assumes "sessions st sid = Some (uid, uname)"
    and "msg_comment_id msg = Some cid"
    and "find (\<lambda>c. c_id c = Some cid) (db_comments st) = Some old"
    and "list_ex (\<lambda>c. c_parent_id c = Some cid)
           (filter (\<lambda>c. c_video_hash c = c_video_hash old) (db_comments st))"
  shows "\<exists>det. del_comment e cfg sid msg st =
     (Inr (), st\<lparr>emitted := emitted st @
          (case userid_to_sid st uid of
             None \<Rightarrow> []
           | Some s \<Rightarrow> if emit_fails e then []
                       else [(s, MessageEv (Message ''error'' uid None (Some cid)
                                   ''Failed to delete comment.'' (Some det)))])\<rparr>)"
proof -
  obtain x where "del_comment_body e cfg sid msg uid uname st = (Inl x, st)"
    using del_comment_body_with_replies [OF assms(2-4)] by blast
  then have "del_comment e cfg sid msg st =
          push_message e (Message ''error'' uid None (Some cid)
                            ''Failed to delete comment.'' (Some (str_of_error x))) True False st"
    using assms(1,2) by (simp add: del_comment_def with_user_session try_except_def)
  then have "del_comment e cfg sid msg st =
     (Inr (), st\<lparr>emitted := emitted st @
          (case userid_to_sid st uid of
             None \<Rightarrow> []
           | Some s \<Rightarrow> if emit_fails e then []
                       else [(s, MessageEv (Message ''error'' uid None (Some cid)
                                   ''Failed to delete comment.'' (Some (str_of_error x))))])\<rparr>)"
    using push_nopersist [of e "Message ''error'' uid None (Some cid)
                            ''Failed to delete comment.'' (Some (str_of_error x))" True st]
      push_dont_throw [of e "Message ''error'' uid None (Some cid)
                            ''Failed to delete comment.'' (Some (str_of_error x))" False st]
    by (simp add: prod_eq_iff) (simp add: Message_def)
  then show ?thesis by (rule exI)
qed

theorem del_comment_with_replies_rejected_witness:
  "sessions ex_state ''c1'' = Some (''alice'', ''Alice'')
   \<and> find (\<lambda>c. c_id c = Some 1) (db_comments ex_state)
       = Some (ex_comment 1 ''vid1'' None ''alice'' ''first'')
   \<and> list_ex (\<lambda>c. c_parent_id c = Some 1)
        (filter (\<lambda>c. c_video_hash c = ''vid1'') (db_comments ex_state))
   \<and> (\<exists>det. del_comment ex_env ex_cfg ''c1'' (ex_msg\<lparr>msg_comment_id := Some 1\<rparr>) ex_state =
        (Inr (), ex_state\<lparr>emitted :=
           [(''c1'', MessageEv (Message ''error'' ''alice'' None (Some 1)
                        ''Failed to delete comment.'' (Some det)))]\<rparr>))"
proof -
  have h1: "sessions ex_state ''c1'' = Some (''alice'', ''Alice'')" by (rule ex_state_session_c1)
  have h2: "msg_comment_id (ex_msg\<lparr>msg_comment_id := Some 1\<rparr>) = Some 1" by simp
  have h3: "find (\<lambda>c. c_id c = Some 1) (db_comments ex_state)
       = Some (ex_comment 1 ''vid1'' None ''alice'' ''first'')" by (rule ex_state_comment1)
  have h4: "list_ex (\<lambda>c. c_parent_id c = Some 1)
        (filter (\<lambda>c. c_video_hash c = c_video_hash (ex_comment 1 ''vid1'' None ''alice'' ''first''))
           (db_comments ex_state))"
    by (simp add: ex_state_def ex_comment_def)
  have h4': "list_ex (\<lambda>c. c_parent_id c = Some 1)
        (filter (\<lambda>c. c_video_hash c = ''vid1'') (db_comments ex_state))"
    using h4 by (simp add: ex_comment_def)
  have em: "emitted ex_state = []" "userid_to_sid ex_state ''alice'' = Some ''c1''"
    by (simp_all add: ex_state_def)
  have "\<exists>det. del_comment ex_env ex_cfg ''c1'' (ex_msg\<lparr>msg_comment_id := Some 1\<rparr>) ex_state =
        (Inr (), ex_state\<lparr>emitted :=
           [(''c1'', MessageEv (Message ''error'' ''alice'' None (Some 1)
                        ''Failed to delete comment.'' (Some det)))]\<rparr>)"
    using del_comment_with_replies_rejected [OF h1 h2 h3 h4, of ex_env ex_cfg] em
    by (simp add: ex_env_def)
  then show ?thesis using h1 h3 h4' by blast
qed

lemmas del_eval_defs = del_comment_def del_comment_body_def with_user_def get_user_def monad_defs
  db_get_comment_def db_get_video_comments_def db_del_comment_def sio_emit_def push_message_def
  ex_env_def ex_msg_def ex_comment_def Let_def

text \<open>
  Claim C2 as stated fails, in two ways, each in a state the server reaches from its
  start.

  After \<open>unrouted_run\<close> alice's comment 1 has the reply 2 on the same video, and alice
  is connected as \<open>c2\<close> while the registry has no entry for her. Her request to delete
  comment 1 is refused, but no error notification is produced: nothing is emitted.

  After \<open>cross_video_run\<close> comment 1 on \<open>vid1\<close> has the reply 2, stored on \<open>vid2\<close>.
  The request to delete comment 1 looks for replies among the comments of \<open>vid1\<close>
  only: the comment is deleted and the deletion is broadcast.
\<close>

theorem del_comment_with_replies_counterexample:
  "list_ex (\<lambda>c. c_parent_id c = Some 1)
      (db_comments (run ex_cfg unrouted_run (init_state [ex_video ''vid1''])))
   \<and> sessions (run ex_cfg unrouted_run (init_state [ex_video ''vid1''])) ''c2''
       = Some (''alice'', ''alice'')
   \<and> emitted (snd (del_comment ex_env ex_cfg ''c2'' (ex_msg\<lparr>msg_comment_id := Some 1\<rparr>)
                    (run ex_cfg unrouted_run (init_state [ex_video ''vid1'']))))
       = emitted (run ex_cfg unrouted_run (init_state [ex_video ''vid1'']))
   \<and> list_ex (\<lambda>c. c_parent_id c = Some 1)
      (db_comments (run ex_cfg cross_video_run (init_state [ex_video ''vid1'', ex_video ''vid2''])))
   \<and> db_comments (snd (del_comment ex_env ex_cfg ''c1'' (ex_msg\<lparr>msg_comment_id := Some 1\<rparr>)
                    (run ex_cfg cross_video_run (init_state [ex_video ''vid1'', ex_video ''vid2'']))))
       = [ex_comment 2 ''vid2'' (Some 1) ''alice'' ''reply'']
   \<and> last (emitted (snd (del_comment ex_env ex_cfg ''c1'' (ex_msg\<lparr>msg_comment_id := Some 1\<rparr>)
                    (run ex_cfg cross_video_run (init_state [ex_video ''vid1'', ex_video ''vid2''])))))
       = (''vid1'', DelComment 1)"
  by (simp add: unrouted_state cross_video_state del_eval_defs)


section \<open>Adding a comment\<close>




section \<open>Drawings are stored under a name made from their content\<close>











section \<open>The message store along a run\<close>

text \<open>
  The stored messages change in two ways only: \<open>db_add_message\<close> appends one under a
  fresh id, and \<open>db_set_message_seen\<close> sets a seen flag. The first is all that any
  request other than \<^verbatim>\<open>list_my_messages\<close> can do (\<open>appended\<close>); the second is what
  the listing does (\<open>mark_seen\<close>). Ids stay distinct along every run (\<open>msg_ids_ok\<close>),
  so the listing of one identity never touches the messages of another.
\<close>

subsection \<open>Requests other than listing only append messages\<close>

lemma appended_refl: "appended st st"
  by (simp add: appended_def)

lemma appended_same:
  "db_messages s' = db_messages s \<Longrightarrow> db_next_message_id s' = db_next_message_id s \<Longrightarrow>
     appended st s \<Longrightarrow> appended st s'"
  by (simp add: appended_def)

lemma appended_trans:
  assumes "appended a b" "appended b c"
  shows "appended a c"
proof -
  obtain n1 where n1: "db_messages b = db_messages a @ n1" "distinct (map m_id n1)"
    "\<forall>m \<in> set n1. \<exists>i. m_id m = Some i \<and> db_next_message_id a \<le> i \<and> i < db_next_message_id b"
    "db_next_message_id a \<le> db_next_message_id b"
    using assms(1) unfolding appended_def by blast
  obtain n2 where n2: "db_messages c = db_messages b @ n2" "distinct (map m_id n2)"
    "\<forall>m \<in> set n2. \<exists>i. m_id m = Some i \<and> db_next_message_id b \<le> i \<and> i < db_next_message_id c"
    "db_next_message_id b \<le> db_next_message_id c"
    using assms(2) unfolding appended_def by blast
  have disj: "m_id ` set n1 \<inter> m_id ` set n2 = {}"
    using n1(3) n2(3) by fastforce
  have "db_messages c = db_messages a @ (n1 @ n2)" using n1(1) n2(1) by simp
  moreover have "distinct (map m_id (n1 @ n2))" using n1(2) n2(2) disj by simp
  moreover have "\<forall>m \<in> set (n1 @ n2). \<exists>i. m_id m = Some i \<and> db_next_message_id a \<le> i \<and> i < db_next_message_id c"
    using n1(3,4) n2(3,4) by fastforce
  moreover have "db_next_message_id a \<le> db_next_message_id c" using n1(4) n2(4) by simp
  ultimately show ?thesis unfolding appended_def by blast
qed

lemma msg_ids_ok_appended:
  assumes "msg_ids_ok st" "appended st st'"
  shows "msg_ids_ok st'"
proof -
  obtain new where n: "db_messages st' = db_messages st @ new" "distinct (map m_id new)"
    "\<forall>m \<in> set new. \<exists>i. m_id m = Some i \<and> db_next_message_id st \<le> i \<and> i < db_next_message_id st'"
    "db_next_message_id st \<le> db_next_message_id st'"
    using assms(2) unfolding appended_def by blast
  have old: "distinct (map m_id (db_messages st))"
    "\<forall>m \<in> set (db_messages st). \<exists>i. m_id m = Some i \<and> i < db_next_message_id st"
    using assms(1) unfolding msg_ids_ok_def by simp_all
  have disj: "m_id ` set (db_messages st) \<inter> m_id ` set new = {}"
    using old(2) n(3) by fastforce
  have "distinct (map m_id (db_messages st'))" using n(1,2) old(1) disj by simp
  moreover have "\<forall>m \<in> set (db_messages st'). \<exists>i. m_id m = Some i \<and> i < db_next_message_id st'"
    using n(1,3,4) old(2) by fastforce
  ultimately show ?thesis unfolding msg_ids_ok_def by simp
qed

lemma push_appended: "appended st s \<Longrightarrow> appended st (snd (push_message e m dt ps s))"
proof -
  assume a: "appended st s"
  have "appended s (snd (push_message e m dt ps s))"
    by (auto simp: appended_def push_message_def db_add_message_def sio_emit_def Let_def
        split: option.splits)
  with a show ?thesis by (rule appended_trans)
qed

lemma then_do_appended:
  assumes "appended st (snd r)" "\<And>v s. appended st s \<Longrightarrow> appended st (snd (f v s))"
  shows "appended st (snd (then_do r f))"
  using assms by (cases r) (auto simp: then_do_def split: sum.splits)

lemma try_except_appended:
  assumes "appended st (snd r)" "\<And>x s. appended st s \<Longrightarrow> appended st (snd (h x s))"
  shows "appended st (snd (try_except r h))"
  using assms by (cases r) (auto simp: try_except_def split: sum.splits)

lemma with_user_appended:
  assumes "\<And>u n. appended st (snd (body u n st))"
    and "\<And>u x s. appended st s \<Longrightarrow> appended st (snd (h u x s))"
  shows "appended st (snd (with_user sid st body h))"
  using assms
  by (auto simp: with_user_def appended_refl intro!: try_except_appended split: option.splits)

lemma basic_appended:
  "appended st s \<Longrightarrow> appended st (snd (sio_emit e room ev s))"
  "appended st s \<Longrightarrow> appended st (snd (lift x s))"
  "appended st s \<Longrightarrow> appended st (snd (py_assert b txt s))"
  "appended st s \<Longrightarrow> appended st (snd (getitem y k s))"
  "appended st s \<Longrightarrow> appended st (sio_enter_room sid room s)"
  "appended st s \<Longrightarrow> appended st (snd (db_del_video_and_comments e h s))"
  "appended st s \<Longrightarrow> appended st (snd (db_add_comment e c s))"
  "appended st s \<Longrightarrow> appended st (snd (db_edit_comment e cid txt s))"
  "appended st s \<Longrightarrow> appended st (snd (db_del_comment e cid s))"
  "appended st s \<Longrightarrow> appended st (snd (fs_mkdir_parents e d s))"
  "appended st s \<Longrightarrow> appended st (snd (fs_open_wb e p s))"
  by (auto simp: sio_emit_def lift_def py_assert_def getitem_def sio_enter_room_def
      db_del_video_and_comments_def db_add_comment_def db_edit_comment_def db_del_comment_def
      fs_mkdir_parents_def fs_open_wb_def Let_def
      elim!: appended_same [rotated 2] split: option.splits fs_fault.splits)

lemmas appended_intros = with_user_appended then_do_appended try_except_appended push_appended
  basic_appended appended_refl

lemma write_chunks_appended:
  "appended st s \<Longrightarrow> appended st (snd (write_chunks ff p cs k s))"
proof (induction ff p cs k s rule: write_chunks.induct)
  case (1 ff p k st)
  then show ?case by simp
next
  case (2 ff p c cs k s)
  let ?s' = "fs_append p c s"
  have "appended st ?s'" using "2.prems" by (simp add: appended_def fs_append_def)
  then show ?case using 2 by (cases ff) auto
qed

lemma emit_new_comment_appended:
  "appended st s \<Longrightarrow> appended st (snd (emit_new_comment e cfg c room s))"
  by (auto simp: emit_new_comment_def intro!: appended_intros)

lemma emit_comments_appended:
  "appended st s \<Longrightarrow> appended st (snd (emit_comments e cfg cs room s))"
  by (induction cs arbitrary: s) (auto intro!: appended_intros emit_new_comment_appended)

lemma store_drawing_appended:
  "appended st s \<Longrightarrow> appended st (snd (store_drawing e cfg h d s))"
  by (auto simp: store_drawing_def Let_def simp del: write_chunks.simps
      intro!: appended_intros write_chunks_appended split: option.splits datauri_data.splits)

lemma list_my_videos_appended: "appended st (snd (list_my_videos e cfg sid st))"
  by (auto simp: list_my_videos_def list_my_videos_body_def intro!: appended_intros)

lemma open_video_appended: "appended st (snd (open_video e cfg sid msg st))"
  by (auto simp: open_video_def open_video_body_def intro!: appended_intros emit_comments_appended
      split: option.splits)

lemma del_video_appended: "appended st (snd (del_video e cfg sid msg st))"
  by (auto simp: del_video_def del_video_body_def intro!: appended_intros split: option.splits)

lemma add_comment_appended: "appended st (snd (add_comment e cfg sid msg st))"
  by (auto simp: add_comment_def add_comment_body_def Let_def
      intro!: appended_intros store_drawing_appended emit_new_comment_appended split: option.splits)

lemma edit_comment_appended: "appended st (snd (edit_comment e cfg sid msg st))"
  by (auto simp: edit_comment_def edit_comment_body_def Let_def
      intro!: appended_intros emit_new_comment_appended split: option.splits)

lemma del_comment_appended: "appended st (snd (del_comment e cfg sid msg st))"
  by (auto simp: del_comment_def del_comment_body_def Let_def
      intro!: appended_intros split: option.splits)

lemma connect_appended: "appended st (snd (sio_connect e sid environ st))"
  by (auto simp: sio_connect_def connect_def sio_emit_def sio_enter_room_def appended_def Let_def
      split: prod.splits)

lemma disconnect_appended: "appended st (snd (sio_disconnect sid st))"
  by (auto simp: sio_disconnect_def disconnect_def get_user_def appended_def split: option.splits prod.splits)

lemma save_upload_appended: "appended st s \<Longrightarrow> appended st (snd (save_upload e dst chunks s))"
proof -
  assume a: "appended st s"
  have w: "\<And>s' cs. appended st s' \<Longrightarrow>
      appended st (snd (case write_chunks (fs_fault e) dst cs 0 s' of
                          (Inl x, st1) \<Rightarrow> (Inl (AttributeError ([CHR 0x27] @ ''coroutine'' @ [CHR 0x27]
                             @ '' object has no attribute '' @ [CHR 0x27] @ ''cancel'' @ [CHR 0x27])), st1)
                        | (Inr u, st1) \<Rightarrow> (Inr u, st1)))"
  proof -
    fix s' cs assume "appended st s'"
    then have "appended st (snd (write_chunks (fs_fault e) dst cs 0 s'))"
      by (rule write_chunks_appended)
    then show "appended st (snd (case write_chunks (fs_fault e) dst cs 0 s' of
                          (Inl x, st1) \<Rightarrow> (Inl (AttributeError ([CHR 0x27] @ ''coroutine'' @ [CHR 0x27]
                             @ '' object has no attribute '' @ [CHR 0x27] @ ''cancel'' @ [CHR 0x27])), st1)
                        | (Inr u, st1) \<Rightarrow> (Inr u, st1)))"
      by (cases "write_chunks (fs_fault e) dst cs 0 s'") (auto split: sum.splits)
  qed
  show ?thesis
    using a unfolding save_upload_def
    by (intro then_do_appended basic_appended w) auto
qed

lemma upload_appended: "appended st (snd (post_upload_file e cfg headers parts st))"
proof -
  have a: "\<And>dst cs. appended st (snd (save_upload e dst cs st))"
    by (rule save_upload_appended) (rule appended_refl)
  have b: "\<And>s u. appended st s \<Longrightarrow> appended st (s\<lparr>ingested := u\<rparr>)"
    by (simp add: appended_def)
  show ?thesis
    using a b
    by (auto simp: post_upload_file_def Let_def appended_refl split: list.splits option.splits prod.splits sum.splits)
      (metis snd_conv)+
qed

lemma step_appended: "\<not> is_listing r \<Longrightarrow> appended st (step cfg e r st)"
  by (cases r)
    (simp_all add: connect_appended disconnect_appended logout_def list_my_videos_appended
      open_video_appended del_video_appended add_comment_appended edit_comment_appended
      del_comment_appended upload_appended push_appended appended_refl)

subsection \<open>What listing does to the message store\<close>

lemma mark_seen_empty: "mark_seen {} ms = ms"
  by (simp add: mark_seen_def)

lemma mark_seen_compose: "mark_seen S (mark_seen T ms) = mark_seen (S \<union> T) ms"
  by (induction ms) (auto simp: mark_seen_def)

lemma mark_seen_ids: "map m_id (mark_seen S ms) = map m_id ms"
  by (induction ms) (auto simp: mark_seen_def)

lemma mark_seen_length: "length (mark_seen S ms) = length ms"
  by (simp add: mark_seen_def)

lemma mark_seen_nth:
  "n < length ms \<Longrightarrow>
     mark_seen S ms ! n = (if m_id (ms ! n) \<in> S then (ms ! n)\<lparr>m_seen := True\<rparr> else ms ! n)"
  by (simp add: mark_seen_def)

lemma set_message_seen_mark:
  "\<not> db_fails e \<Longrightarrow>
     db_set_message_seen e mid True st = (Inr (), st\<lparr>db_messages := mark_seen {mid} (db_messages st)\<rparr>)"
  by (simp add: db_set_message_seen_def mark_seen_def)

lemma list_messages_loop_ok:
  assumes "\<not> db_fails e" "\<not> emit_fails e"
  shows "list_messages_loop e sid ms st =
     (Inr (), st\<lparr>emitted := emitted st @ map (\<lambda>m. (sid, MessageEv m)) ms,
                  db_messages := mark_seen (m_id ` {m \<in> set ms. \<not> m_seen m}) (db_messages st)\<rparr>)"
proof (induction ms arbitrary: st)
  case Nil
  then show ?case by (simp add: mark_seen_empty)
next
  case (Cons m ms)
  have eq1: "insert (m_id m) (m_id ` {x \<in> set ms. \<not> m_seen x}) = m_id ` {x \<in> set (m # ms). \<not> m_seen x}"
    if "\<not> m_seen m" using that by auto
  have eq2: "m_id ` {x \<in> set ms. \<not> m_seen x} = m_id ` {x \<in> set (m # ms). \<not> m_seen x}"
    if "m_seen m" using that by auto
  show ?case
  proof (cases "m_seen m")
    case True
    then show ?thesis
      using assms Cons.IH [of "st\<lparr>emitted := emitted st @ [(sid, MessageEv m)]\<rparr>"] eq2
      by (simp add: then_do_def sio_emit_def)
  next
    case False
    then show ?thesis
      using assms eq1
        Cons.IH [of "st\<lparr>emitted := emitted st @ [(sid, MessageEv m)],
                       db_messages := mark_seen {m_id m} (db_messages st)\<rparr>"]
      by (simp add: then_do_def sio_emit_def set_message_seen_mark mark_seen_compose)
  qed
qed

lemma list_messages_loop_any:
  "\<exists>S. S \<subseteq> m_id ` {m \<in> set ms. \<not> m_seen m}
      \<and> db_messages (snd (list_messages_loop e sid ms st)) = mark_seen S (db_messages st)
      \<and> db_next_message_id (snd (list_messages_loop e sid ms st)) = db_next_message_id st"
proof (induction ms arbitrary: st)
  case Nil
  have "{} \<subseteq> m_id ` {m \<in> set []. \<not> m_seen m}
      \<and> db_messages (snd (list_messages_loop e sid [] st)) = mark_seen {} (db_messages st)
      \<and> db_next_message_id (snd (list_messages_loop e sid [] st)) = db_next_message_id st"
    by (simp add: mark_seen_empty)
  then show ?case by blast
next
  case (Cons m ms)
  let ?st1 = "st\<lparr>emitted := emitted st @ [(sid, MessageEv m)]\<rparr>"
  let ?st2 = "?st1\<lparr>db_messages := mark_seen {m_id m} (db_messages ?st1)\<rparr>"
  let ?goal = "\<lambda>S. S \<subseteq> m_id ` {x \<in> set (m # ms). \<not> m_seen x}
      \<and> db_messages (snd (list_messages_loop e sid (m # ms) st)) = mark_seen S (db_messages st)
      \<and> db_next_message_id (snd (list_messages_loop e sid (m # ms) st)) = db_next_message_id st"
  consider (fail) "emit_fails e \<or> (\<not> m_seen m \<and> db_fails e)"
    | (seen) "\<not> emit_fails e" "m_seen m"
    | (unseen) "\<not> emit_fails e" "\<not> m_seen m" "\<not> db_fails e" by blast
  then show ?case
  proof cases
    case fail
    then have "?goal {}"
      by (auto simp: then_do_def sio_emit_def db_set_message_seen_def mark_seen_empty)
    then show ?thesis by blast
  next
    case seen
    obtain S where S: "S \<subseteq> m_id ` {x \<in> set ms. \<not> m_seen x}"
      "db_messages (snd (list_messages_loop e sid ms ?st1)) = mark_seen S (db_messages ?st1)"
      "db_next_message_id (snd (list_messages_loop e sid ms ?st1)) = db_next_message_id ?st1"
      using Cons.IH [of ?st1] by blast
    have "?goal S" using seen S by (auto simp: then_do_def sio_emit_def)
    then show ?thesis by blast
  next
    case unseen
    obtain S where S: "S \<subseteq> m_id ` {x \<in> set ms. \<not> m_seen x}"
      "db_messages (snd (list_messages_loop e sid ms ?st2)) = mark_seen S (db_messages ?st2)"
      "db_next_message_id (snd (list_messages_loop e sid ms ?st2)) = db_next_message_id ?st2"
      using Cons.IH [of ?st2] by blast
    have "?goal (S \<union> {m_id m})"
      using unseen S
      by (auto simp: then_do_def sio_emit_def set_message_seen_mark mark_seen_compose)
    then show ?thesis by blast
  qed
qed

lemma list_my_messages_any:
  "\<exists>S. S \<subseteq> m_id ` {m \<in> set (db_messages st).
                        (case sessions st sid of None \<Rightarrow> False | Some (u, n) \<Rightarrow> m_user_id m = u)}
      \<and> db_messages (snd (list_my_messages e sid st)) = mark_seen S (db_messages st)
      \<and> db_next_message_id (snd (list_my_messages e sid st)) = db_next_message_id st"
proof (cases "sessions st sid")
  case None
  then have "{} \<subseteq> m_id ` {m \<in> set (db_messages st).
                        (case sessions st sid of None \<Rightarrow> False | Some (u, n) \<Rightarrow> m_user_id m = u)}
      \<and> db_messages (snd (list_my_messages e sid st)) = mark_seen {} (db_messages st)
      \<and> db_next_message_id (snd (list_my_messages e sid st)) = db_next_message_id st"
    by (simp add: list_my_messages_def with_user_def get_user_def mark_seen_empty)
  then show ?thesis by blast
next
  case (Some p)
  obtain u n where p: "p = (u, n)" by (cases p)
  let ?ms = "filter (\<lambda>m. m_user_id m = u) (db_messages st)"
  obtain S where S: "S \<subseteq> m_id ` {m \<in> set ?ms. \<not> m_seen m}"
      "db_messages (snd (list_messages_loop e sid ?ms st)) = mark_seen S (db_messages st)"
      "db_next_message_id (snd (list_messages_loop e sid ?ms st)) = db_next_message_id st"
    using list_messages_loop_any [of ?ms e sid st] by blast
  have sub: "S \<subseteq> m_id ` {m \<in> set (db_messages st).
                        (case sessions st sid of None \<Rightarrow> False | Some (u, n) \<Rightarrow> m_user_id m = u)}"
    using S(1) Some p by auto
  show ?thesis
  proof (cases "u \<noteq> [] \<and> \<not> db_fails e")
    case True
    have body: "list_my_messages_body e sid u n st = list_messages_loop e sid ?ms st"
      using True by (simp add: list_my_messages_body_def monad_defs db_get_user_messages_def)
    have "db_messages (snd (list_my_messages e sid st)) = mark_seen S (db_messages st)
      \<and> db_next_message_id (snd (list_my_messages e sid st)) = db_next_message_id st"
      using Some p body S(2,3)
      by (cases "list_messages_loop e sid ?ms st")
        (auto simp: list_my_messages_def with_user_session try_except_def sio_emit_def
          split: sum.splits)
    with sub show ?thesis by blast
  next
    case False
    then have "\<exists>x. list_my_messages_body e sid u n st = (Inl x, st)"
      by (auto simp: list_my_messages_body_def monad_defs db_get_user_messages_def)
    then have "db_messages (snd (list_my_messages e sid st)) = mark_seen {} (db_messages st)
      \<and> db_next_message_id (snd (list_my_messages e sid st)) = db_next_message_id st"
      using Some p
      by (auto simp: list_my_messages_def with_user_session try_except_def sio_emit_def
          mark_seen_empty)
    then show ?thesis by blast
  qed
qed

lemma list_my_messages_ok:
  assumes "sessions st sid = Some (uid, uname)" "uid \<noteq> []" "\<not> db_fails e" "\<not> emit_fails e"
  shows "list_my_messages e sid st =
     (Inr (), st\<lparr>emitted := emitted st @ map (\<lambda>m. (sid, MessageEv m))
                                           (filter (\<lambda>m. m_user_id m = uid) (db_messages st)),
                  db_messages := mark_seen
                     (m_id ` {m \<in> set (db_messages st). m_user_id m = uid \<and> \<not> m_seen m})
                     (db_messages st)\<rparr>)"
proof -
  have eq: "{m \<in> set (filter (\<lambda>m. m_user_id m = uid) (db_messages st)). \<not> m_seen m}
      = {m \<in> set (db_messages st). m_user_id m = uid \<and> \<not> m_seen m}" by auto
  show ?thesis
    using assms
    by (simp add: list_my_messages_def list_my_messages_body_def with_user_session monad_defs
        db_get_user_messages_def list_messages_loop_ok eq)
qed

subsection \<open>One stored message along a run\<close>

lemma step_listing: "is_listing r \<Longrightarrow> \<exists>sid. r = ListMyMessages sid"
  by (cases r) auto

lemma msg_ids_ok_mark:
  assumes "msg_ids_ok st" "db_messages st' = mark_seen S (db_messages st)"
    and "db_next_message_id st' = db_next_message_id st"
  shows "msg_ids_ok st'"
proof -
  have ids: "map m_id (db_messages st') = map m_id (db_messages st)"
    using assms(2) by (simp add: mark_seen_ids)
  then have "set (map m_id (db_messages st')) = set (map m_id (db_messages st))" by simp
  then have im: "m_id ` set (db_messages st') = m_id ` set (db_messages st)" by simp
  have "\<forall>x \<in> m_id ` set (db_messages st). \<exists>i. x = Some i \<and> i < db_next_message_id st"
    using assms(1) unfolding msg_ids_ok_def by blast
  then have "\<forall>x \<in> m_id ` set (db_messages st'). \<exists>i. x = Some i \<and> i < db_next_message_id st'"
    using im assms(3) by simp
  then have "\<forall>m \<in> set (db_messages st'). \<exists>i. m_id m = Some i \<and> i < db_next_message_id st'"
    by blast
  moreover have "distinct (map m_id (db_messages st'))"
    using assms(1) ids unfolding msg_ids_ok_def by simp
  ultimately show ?thesis unfolding msg_ids_ok_def by simp
qed

lemma step_msg_ids_ok: "msg_ids_ok st \<Longrightarrow> msg_ids_ok (step cfg e r st)"
proof (cases "is_listing r")
  case False
  assume "msg_ids_ok st"
  then show ?thesis using step_appended [OF False] by (rule msg_ids_ok_appended)
next
  case True
  assume a: "msg_ids_ok st"
  obtain sid where r: "r = ListMyMessages sid" using True step_listing by blast
  obtain S where "db_messages (snd (list_my_messages e sid st)) = mark_seen S (db_messages st)"
    "db_next_message_id (snd (list_my_messages e sid st)) = db_next_message_id st"
    using list_my_messages_any [of st sid e] by blast
  then show ?thesis using a r msg_ids_ok_mark by simp
qed

lemma run_msg_ids_ok: "msg_ids_ok st \<Longrightarrow> msg_ids_ok (run cfg rs st)"
  by (induction rs arbitrary: st) (auto simp: step_msg_ids_ok)

lemma init_msg_ids_ok: "msg_ids_ok (init_state vs)"
  by (simp add: msg_ids_ok_def init_state_def)

lemma step_keeps_message:
  assumes "\<not> listing_by uid r st" "msg_ids_ok st"
    and "n < length (db_messages st)" "m_user_id (db_messages st ! n) = uid"
  shows "n < length (db_messages (step cfg e r st))
       \<and> db_messages (step cfg e r st) ! n = db_messages st ! n"
proof (cases "is_listing r")
  case False
  obtain new where "db_messages (step cfg e r st) = db_messages st @ new"
    using step_appended [OF False, of st cfg e] unfolding appended_def by blast
  then show ?thesis using assms(3) by (simp add: nth_append)
next
  case True
  obtain sid where r: "r = ListMyMessages sid" using True step_listing by blast
  obtain S where S: "S \<subseteq> m_id ` {m \<in> set (db_messages st).
                        (case sessions st sid of None \<Rightarrow> False | Some (u, n) \<Rightarrow> m_user_id m = u)}"
    "db_messages (snd (list_my_messages e sid st)) = mark_seen S (db_messages st)"
    using list_my_messages_any [of st sid e] by blast
  have notin: "m_id (db_messages st ! n) \<notin> S"
  proof
    assume "m_id (db_messages st ! n) \<in> S"
    then obtain m where m: "m \<in> set (db_messages st)" "m_id m = m_id (db_messages st ! n)"
      "(case sessions st sid of None \<Rightarrow> False | Some (u, n) \<Rightarrow> m_user_id m = u)"
      using S(1) by auto
    have "inj_on m_id (set (db_messages st))"
      using assms(2) unfolding msg_ids_ok_def by (simp add: distinct_map)
    then have "m = db_messages st ! n"
      using m(1,2) assms(3) by (auto dest: inj_onD)
    then show False using m(3) assms(1,4) r by (auto split: option.splits)
  qed
  show ?thesis
    using r S(2) assms(3) notin by (simp add: mark_seen_length mark_seen_nth)
qed

lemma run_keeps_message:
  assumes "no_listing_by uid cfg rs st" "msg_ids_ok st"
    and "n < length (db_messages st)" "m_user_id (db_messages st ! n) = uid"
  shows "n < length (db_messages (run cfg rs st))
       \<and> db_messages (run cfg rs st) ! n = db_messages st ! n"
  using assms
proof (induction rs arbitrary: st)
  case Nil
  then show ?case by simp
next
  case (Cons er rs)
  obtain e r where er: "er = (e, r)" by (cases er)
  have nl: "\<not> listing_by uid r st" and rest: "no_listing_by uid cfg rs (step cfg e r st)"
    using Cons.prems(1) er by (auto split: if_splits)
  have k: "n < length (db_messages (step cfg e r st))"
    "db_messages (step cfg e r st) ! n = db_messages st ! n"
    using step_keeps_message [OF nl Cons.prems(2,3,4), of cfg e] by simp_all
  show ?case
    using Cons.IH [OF rest step_msg_ids_ok [OF Cons.prems(2)] k(1)] k(2) Cons.prems(4) er
    by simp
qed

lemma step_seen_stays:
  assumes "n < length (db_messages st)" "m_seen (db_messages st ! n)"
  shows "n < length (db_messages (step cfg e r st))
       \<and> db_messages (step cfg e r st) ! n = db_messages st ! n"
proof (cases "is_listing r")
  case False
  obtain new where "db_messages (step cfg e r st) = db_messages st @ new"
    using step_appended [OF False, of st cfg e] unfolding appended_def by blast
  then show ?thesis using assms(1) by (simp add: nth_append)
next
  case True
  obtain sid where r: "r = ListMyMessages sid" using True step_listing by blast
  obtain S where S: "db_messages (snd (list_my_messages e sid st)) = mark_seen S (db_messages st)"
    using list_my_messages_any [of st sid e] by blast
  show ?thesis
    using r S assms by (simp add: mark_seen_length mark_seen_nth)
qed

lemma run_seen_stays:
  assumes "n < length (db_messages st)" "m_seen (db_messages st ! n)"
  shows "n < length (db_messages (run cfg rs st))
       \<and> db_messages (run cfg rs st) ! n = db_messages st ! n"
  using assms
proof (induction rs arbitrary: st)
  case Nil
  then show ?case by simp
next
  case (Cons er rs)
  obtain e r where er: "er = (e, r)" by (cases er)
  have k: "n < length (db_messages (step cfg e r st))"
    "db_messages (step cfg e r st) ! n = db_messages st ! n"
    using step_seen_stays [OF Cons.prems, of cfg e r] by simp_all
  show ?case using Cons.IH [OF k(1)] k(2) Cons.prems(2) er by simp
qed


lemma mark_seen_all_seen:
  "\<forall>m \<in> set (mark_seen (m_id ` {m \<in> set ms. m_user_id m = uid \<and> \<not> m_seen m}) ms).
      m_user_id m = uid \<longrightarrow> m_seen m"
  by (auto simp: mark_seen_def)

lemma step_keeps_old_messages:
  "\<not> is_listing r \<Longrightarrow>
     take (length (db_messages st)) (db_messages (step cfg e r st)) = db_messages st"
  using step_appended [of r st cfg e] unfolding appended_def by auto

lemma push_message_store:
  "db_messages (snd (push_message e m dt ps st)) = db_messages st
   \<or> db_messages (snd (push_message e m dt ps st))
       = db_messages st @ [m\<lparr>m_id := Some (db_next_message_id st), m_created := Some (now e)\<rparr>]"
  by (auto simp: push_message_def db_add_message_def sio_emit_def Let_def split: option.splits)

lemma push_persist_store:
  "\<not> db_fails e \<Longrightarrow>
     db_messages (snd (push_message e m dt True st))
       = db_messages st @ [m\<lparr>m_id := Some (db_next_message_id st), m_created := Some (now e)\<rparr>]"
  by (auto simp: push_message_def db_add_message_def sio_emit_def Let_def split: option.splits)

text \<open>
  Claim C4. Let \<open>st\<close> be a state the server reaches from its start, in which the
  identity \<open>uid\<close> routes to no connection, and let an unseen notification for \<open>uid\<close>
  be pushed with \<open>persist\<close> set while storage works. Then:
  \<^item> nothing is emitted, and the notification is stored, with its id and timestamp,
    still unseen;
  \<^item> after any run in which \<open>uid\<close> does not list the mailbox, the stored notification
    is as the push left it;
  \<^item> the next \<^verbatim>\<open>list_my_messages\<close> of \<open>uid\<close> (storage and the socket layer working)
    emits exactly one \<open>message\<close> event per stored notification of \<open>uid\<close>, the pushed
    one among them and unseen, and leaves every stored notification of \<open>uid\<close> seen;
  \<^item> after any further run whatsoever the notification is stored as seen.

  Moreover, for every push at all, the messages stored before are exactly as they were
  and the one it may add carries the seen flag it was pushed with; and every request
  other than \<^verbatim>\<open>list_my_messages\<close> leaves every stored message as it was.
\<close>

theorem seen_only_by_listing:
  assumes "st = run cfg rs0 (init_state vs)"
    and "m_user_id msg = uid" and "userid_to_sid st uid = None" and "\<not> m_seen msg"
    and "\<not> db_fails e"
    and "st1 = snd (push_message e msg dont_throw True st)"
    and "no_listing_by uid cfg rs1 st1" and "st2 = run cfg rs1 st1"
    and "sessions st2 sid = Some (uid, uname)" and "uid \<noteq> []"
    and "\<not> db_fails e2" and "\<not> emit_fails e2"
    and "st3 = snd (list_my_messages e2 sid st2)"
    and "stored = msg\<lparr>m_id := Some (db_next_message_id st), m_created := Some (now e)\<rparr>"
  shows "emitted st1 = emitted st
       \<and> db_messages st1 = db_messages st @ [stored] \<and> \<not> m_seen stored
       \<and> db_messages st2 ! length (db_messages st) = stored
       \<and> emitted st3 = emitted st2 @ map (\<lambda>m. (sid, MessageEv m))
                                        (filter (\<lambda>m. m_user_id m = uid) (db_messages st2))
       \<and> stored \<in> set (filter (\<lambda>m. m_user_id m = uid) (db_messages st2))
       \<and> (\<forall>m \<in> set (db_messages st3). m_user_id m = uid \<longrightarrow> m_seen m)
       \<and> db_messages (run cfg rs2 st3) ! length (db_messages st) = stored\<lparr>m_seen := True\<rparr>
       \<and> (db_messages (snd (push_message e' msg' dont_throw' persist' st')) = db_messages st'
          \<or> db_messages (snd (push_message e' msg' dont_throw' persist' st'))
              = db_messages st' @ [msg'\<lparr>m_id := Some (db_next_message_id st'),
                                         m_created := Some (now e')\<rparr>])
       \<and> (\<not> is_listing r \<longrightarrow>
            take (length (db_messages st')) (db_messages (step cfg e' r st')) = db_messages st')"
proof -
  let ?n = "length (db_messages st)"
  have c1: "emitted st1 = emitted st"
    using assms(2,3,6) push_message_unrouted [of st msg e dont_throw True] by simp
  have c2: "db_messages st1 = db_messages st @ [stored]"
    using push_persist_store [of e msg dont_throw st] assms(5,6,14) by simp
  have c2': "\<not> m_seen stored" and su: "m_user_id stored = uid" using assms(2,4,14) by simp_all
  have ok: "msg_ids_ok st" using assms(1) run_msg_ids_ok [OF init_msg_ids_ok] by simp
  have "appended st (snd (push_message e msg dont_throw True st))"
    by (rule push_appended [OF appended_refl])
  then have ap: "appended st st1" using assms(6) by simp
  have ok1: "msg_ids_ok st1" by (rule msg_ids_ok_appended [OF ok ap])
  have n1: "?n < length (db_messages st1)" and s1: "db_messages st1 ! ?n = stored"
    using c2 by simp_all
  have k: "?n < length (db_messages st2)" "db_messages st2 ! ?n = stored"
    using run_keeps_message [OF assms(7) ok1 n1] s1 su assms(8) by simp_all
  have "db_messages st2 ! ?n \<in> set (db_messages st2)" using k(1) by (rule nth_mem)
  then have mem: "stored \<in> set (db_messages st2)" using k(2) by simp
  then have c4: "stored \<in> set (filter (\<lambda>m. m_user_id m = uid) (db_messages st2))"
    using su by simp
  let ?S = "m_id ` {m \<in> set (db_messages st2). m_user_id m = uid \<and> \<not> m_seen m}"
  have l: "list_my_messages e2 sid st2 =
     (Inr (), st2\<lparr>emitted := emitted st2 @ map (\<lambda>m. (sid, MessageEv m))
                                           (filter (\<lambda>m. m_user_id m = uid) (db_messages st2)),
                  db_messages := mark_seen ?S (db_messages st2)\<rparr>)"
    by (rule list_my_messages_ok [OF assms(9,10,11,12)])
  have c3: "emitted st3 = emitted st2 @ map (\<lambda>m. (sid, MessageEv m))
                                        (filter (\<lambda>m. m_user_id m = uid) (db_messages st2))"
    and m3: "db_messages st3 = mark_seen ?S (db_messages st2)"
    using l assms(13) by simp_all
  have c5: "\<forall>m \<in> set (db_messages st3). m_user_id m = uid \<longrightarrow> m_seen m"
    unfolding m3 by (rule mark_seen_all_seen)
  have "stored \<in> {m \<in> set (db_messages st2). m_user_id m = uid \<and> \<not> m_seen m}"
    by (intro CollectI conjI) (rule mem su c2')+
  then have inS: "m_id stored \<in> ?S" by (rule imageI)
  have n3: "?n < length (db_messages st3)" using m3 k(1) by (simp add: mark_seen_length)
  have s3: "db_messages st3 ! ?n = stored\<lparr>m_seen := True\<rparr>"
    using m3 k inS by (simp add: mark_seen_nth)
  have c6: "db_messages (run cfg rs2 st3) ! ?n = stored\<lparr>m_seen := True\<rparr>"
    using run_seen_stays [OF n3, of cfg rs2] s3 by simp
  have c7: "db_messages (snd (push_message e' msg' dont_throw' persist' st')) = db_messages st'
          \<or> db_messages (snd (push_message e' msg' dont_throw' persist' st'))
              = db_messages st' @ [msg'\<lparr>m_id := Some (db_next_message_id st'),
                                         m_created := Some (now e')\<rparr>]"
    by (rule push_message_store)
  have c8: "\<not> is_listing r \<longrightarrow>
            take (length (db_messages st')) (db_messages (step cfg e' r st')) = db_messages st'"
    by (rule impI) (rule step_keeps_old_messages)
  show ?thesis
    by (intro conjI) (rule c1 c2 c2' k(2) c3 c4 c5 c6 c7 c8)+
qed

theorem seen_only_by_listing_witness:
  "userid_to_sid (init_state [ex_video ''vid1'']) ''alice'' = None
   \<and> \<not> m_seen ex_note
   \<and> no_listing_by ''alice'' ex_cfg [(ex_env, Connect ''c1'' (headers_of ''alice'' ''Alice''))]
        pushed_offline
   \<and> sessions (run ex_cfg [(ex_env, Connect ''c1'' (headers_of ''alice'' ''Alice''))] pushed_offline) ''c1''
        = Some (''alice'', ''Alice'')
   \<and> emitted pushed_offline = []
   \<and> db_messages pushed_offline = [ex_note\<lparr>m_id := Some 1, m_created := Some 1000\<rparr>]
   \<and> db_messages
        (run ex_cfg [(ex_env, ListMyMessages ''c1''), (ex_env, ListMyMessages ''c1'')]
          (snd (list_my_messages ex_env ''c1''
            (run ex_cfg [(ex_env, Connect ''c1'' (headers_of ''alice'' ''Alice''))] pushed_offline)))) ! 0
        = ex_note\<lparr>m_id := Some 1, m_created := Some 1000, m_seen := True\<rparr>"
proof -
  let ?st = "init_state [ex_video ''vid1'']"
  let ?rs1 = "[(ex_env, Connect ''c1'' (headers_of ''alice'' ''Alice''))]"
  have h1: "?st = run ex_cfg [] (init_state [ex_video ''vid1''])" by simp
  have h2: "m_user_id ex_note = ''alice''" by (simp add: ex_note_def Message_def)
  have h3: "userid_to_sid ?st ''alice'' = None" by (simp add: init_state_def)
  have h4: "\<not> m_seen ex_note" by (simp add: ex_note_def Message_def)
  have h5: "\<not> db_fails ex_env" by (simp add: ex_env_def)
  have h6: "pushed_offline = snd (push_message ex_env ex_note True True ?st)"
    by (simp add: pushed_offline_def)
  have h7: "no_listing_by ''alice'' ex_cfg ?rs1 pushed_offline" by simp
  have h8: "run ex_cfg ?rs1 pushed_offline = run ex_cfg ?rs1 pushed_offline" by simp
  have h9: "sessions (run ex_cfg ?rs1 pushed_offline) ''c1'' = Some (''alice'', ''Alice'')"
    by (simp add: sio_connect_def connect_def sio_emit_def sio_enter_room_def alice_headers
        ex_env_def)
  have h10: "''alice'' \<noteq> []" by simp
  have h12: "\<not> emit_fails ex_env" by (simp add: ex_env_def)
  have h13: "snd (list_my_messages ex_env ''c1'' (run ex_cfg ?rs1 pushed_offline))
      = snd (list_my_messages ex_env ''c1'' (run ex_cfg ?rs1 pushed_offline))" by simp
  have h14: "ex_note\<lparr>m_id := Some 1, m_created := Some 1000\<rparr>
      = ex_note\<lparr>m_id := Some (db_next_message_id ?st), m_created := Some (now ex_env)\<rparr>"
    by (simp add: init_state_def ex_env_def)
  have len: "length (db_messages ?st) = 0" by (simp add: init_state_def)
  have em: "emitted ?st = []" "db_messages ?st = []" by (simp_all add: init_state_def)
  note t = seen_only_by_listing [OF h1 h2 h3 h4 h5 h6 h7 h8 h9 h10 h5 h12 h13 h14,
      of "[(ex_env, ListMyMessages ''c1''), (ex_env, ListMyMessages ''c1'')]"]
  have a: "emitted pushed_offline = []" using t [THEN conjunct1] em by simp
  have b: "db_messages pushed_offline = [ex_note\<lparr>m_id := Some 1, m_created := Some 1000\<rparr>]"
    using t [THEN conjunct2, THEN conjunct1] em by simp
  have c: "db_messages
        (run ex_cfg [(ex_env, ListMyMessages ''c1''), (ex_env, ListMyMessages ''c1'')]
          (snd (list_my_messages ex_env ''c1'' (run ex_cfg ?rs1 pushed_offline)))) ! 0
        = ex_note\<lparr>m_id := Some 1, m_created := Some 1000, m_seen := True\<rparr>"
    using t [THEN conjunct2, THEN conjunct2, THEN conjunct2, THEN conjunct2, THEN conjunct2,
        THEN conjunct2, THEN conjunct2, THEN conjunct1] len
    by simp
  show ?thesis
    by (intro conjI) (rule h3 h4 h7 h9 a b c)+
qed

section \<open>Upload requests: answers and rejected file names\<close>

lemma user_id_nonempty: "fst (user_from_headers headers) \<noteq> []"
  by (auto simp: user_from_headers_def or_str_def Let_def split: option.splits)

lemma py_split_nonempty: "py_split sep s \<noteq> []"
  by (induction s) (auto split: list.splits)

lemma py_split_no_sep: "w \<in> set (py_split sep s) \<Longrightarrow> sep \<notin> set w"
proof (induction s arbitrary: w)
  case Nil
  then show ?case by simp
next
  case (Cons x xs)
  show ?case
  proof (cases "x = sep")
    case True
    then show ?thesis using Cons by auto
  next
    case False
    obtain v vs where sp: "py_split sep xs = v # vs"
      using py_split_nonempty [of sep xs] by (cases "py_split sep xs") auto
    then have "w = x # v \<or> w \<in> set vs" using Cons.prems False by simp
    then show ?thesis using Cons.IH [of v] Cons.IH [of w] sp False by auto
  qed
qed

lemma path_name_sep: "CHR ''/'' \<in> set fn \<Longrightarrow> path_name fn \<noteq> fn"
proof
  assume sep: "CHR ''/'' \<in> set fn" and eq: "path_name fn = fn"
  let ?parts = "filter (\<lambda>p. p \<noteq> [] \<and> p \<noteq> ''.'') (py_split CHR ''/'' fn)"
  have ne: "fn \<noteq> []" using sep by auto
  then have "?parts \<noteq> []" using eq by (auto simp: path_name_def Let_def)
  then have "last ?parts \<in> set ?parts" by (rule last_in_set)
  moreover have "path_name fn = last ?parts" using \<open>?parts \<noteq> []\<close> by (simp add: path_name_def Let_def)
  ultimately have "fn \<in> set (py_split CHR ''/'' fn)" using eq by auto
  then show False using py_split_no_sep sep by blast
qed

lemma upload_first_part_decides:
  "f_name p \<noteq> ''fileupload'' \<Longrightarrow>
     post_upload_file e cfg headers (p # ps) st
       = (Inr (Response 400 ''No fileupload field in POST''), st)"
  by (simp add: post_upload_file_def user_id_nonempty Let_def)

lemma upload_saved:
  assumes "f_name p = ''fileupload''" "f_filename p = Some fn" "path_name fn = fn"
    and "\<not> path_exists (upload_dir cfg @ [uuid4 e] @ (if fn = [] then [] else [fn])) st"
    and "save_upload e (upload_dir cfg @ [uuid4 e] @ (if fn = [] then [] else [fn])) (f_chunks p) st
           = (r, st1)"
  shows "fst (post_upload_file e cfg headers (p # ps) st) =
           (case r of Inr u \<Rightarrow> Inr (Response 200 ''Upload OK'')
            | Inl x \<Rightarrow> if x = PermissionError
                        then Inr (Response 500 ''Permission error saving upload'') else Inl x)"
  using assms
  by (cases r; cases "fn = []") (auto simp: post_upload_file_def user_id_nonempty Let_def)

lemma save_upload_write_failure:
  "fs_fault e = FailWrite n x \<Longrightarrow> fst (save_upload e dst chunks st) \<noteq> Inl PermissionError"
  by (cases "write_chunks (FailWrite n x) dst (takeWhile (\<lambda>c. c \<noteq> []) chunks) 0
               (st\<lparr>dirs := dirs st \<union> set (prefixes1 (butlast dst)), files := (files st)(dst \<mapsto> [])\<rparr>)")
    (auto simp: save_upload_def monad_defs fs_mkdir_parents_def fs_open_wb_def split: sum.splits)

lemma save_upload_mkdir_failure:
  "fs_fault e = FailMkdir x \<Longrightarrow> save_upload e dst chunks st = (Inl x, st)"
  by (simp add: save_upload_def monad_defs fs_mkdir_parents_def)

text \<open>
  Claim C7 fails on a request whose multipart body has no part. The
  \<^verbatim>\<open>return web.Response(status=400, ...)\<close> is the last statement inside the body of
  \<^verbatim>\<open>async for field in ...\<close>; with no part the body never runs and the function
  returns \<^verbatim>\<open>None\<close>, in every environment and state.
\<close>

theorem upload_without_parts_returns_none:
  "post_upload_file e cfg headers [] st = (Inr ReturnedNone, st)"
  by (simp add: post_upload_file_def user_id_nonempty Let_def)

text \<open>
  Claim C8. Let the \<^verbatim>\<open>fileupload\<close> part of a request (the first part of that name)
  carry a file name with a path separator, or more generally one that differs from its
  own base name. Then the request is rejected and the state is as before: no directory
  was made, no file created, no byte written. The rejection is the failed assertion
  when that part comes first; when another part comes first, the answer is 400.
\<close>

theorem upload_path_rejected:
  assumes "find (\<lambda>f. f_name f = ''fileupload'') parts = Some f"
    and "f_filename f = Some fn"
    and "CHR ''/'' \<in> set fn \<or> path_name fn \<noteq> fn"
  shows "snd (post_upload_file e cfg headers parts st) = st
       \<and> fst (post_upload_file e cfg headers parts st) =
           (if f_name (hd parts) = ''fileupload''
            then Inl (AssertionError ''Filename must not contain path'')
            else Inr (Response 400 ''No fileupload field in POST''))"
proof -
  have bad: "path_name fn \<noteq> fn" using assms(3) path_name_sep by blast
  obtain p ps where parts: "parts = p # ps" using assms(1) by (cases parts) auto
  show ?thesis
  proof (cases "f_name p = ''fileupload''")
    case True
    then have "p = f" using assms(1) parts by simp
    then show ?thesis
      using True parts assms(2) bad
      by (simp add: post_upload_file_def user_id_nonempty Let_def)
  next
    case False
    then show ?thesis using parts by (simp add: upload_first_part_decides)
  qed
qed

theorem upload_path_rejected_witness:
  "find (\<lambda>f. f_name f = ''fileupload'') [ex_upload ''fileupload'' ''../etc/passwd'']
     = Some (ex_upload ''fileupload'' ''../etc/passwd'')
   \<and> f_filename (ex_upload ''fileupload'' ''../etc/passwd'') = Some ''../etc/passwd''
   \<and> CHR ''/'' \<in> set ''../etc/passwd''
   \<and> post_upload_file ex_env ex_cfg (headers_of ''alice'' ''Alice'')
        [ex_upload ''fileupload'' ''../etc/passwd''] alice_connected
       = (Inl (AssertionError ''Filename must not contain path''), alice_connected)"
proof -
  have h1: "find (\<lambda>f. f_name f = ''fileupload'') [ex_upload ''fileupload'' ''../etc/passwd'']
     = Some (ex_upload ''fileupload'' ''../etc/passwd'')" by (simp add: ex_upload_def)
  have h2: "f_filename (ex_upload ''fileupload'' ''../etc/passwd'') = Some ''../etc/passwd''"
    by (simp add: ex_upload_def)
  have h3': "CHR ''/'' \<in> set ''../etc/passwd''" by simp
  then have h3: "CHR ''/'' \<in> set ''../etc/passwd'' \<or> path_name ''../etc/passwd'' \<noteq> ''../etc/passwd''"
    by (rule disjI1)
  have hd: "f_name (hd [ex_upload ''fileupload'' ''../etc/passwd'']) = ''fileupload''"
    by (simp add: ex_upload_def)
  have "post_upload_file ex_env ex_cfg (headers_of ''alice'' ''Alice'')
        [ex_upload ''fileupload'' ''../etc/passwd''] alice_connected
       = (Inl (AssertionError ''Filename must not contain path''), alice_connected)"
    using upload_path_rejected [OF h1 h2 h3, of ex_env ex_cfg "headers_of ''alice'' ''Alice''" alice_connected] hd
    by (simp add: prod_eq_iff)
  then show ?thesis using h1 h2 h3' by (intro conjI)
qed

end
